theory Spec2Isabelle
  imports Main
begin

section \<open>Values, labels and errors\<close>

text \<open>
  The two laboratory scripts (\<^verbatim>\<open>lab_7_llm/main.py\<close>, \<^verbatim>\<open>lab_8_sft/main.py\<close>) move
  pandas tables through four stages. A table cell is a Python value: a string, a
  boolean, an integer, \<^verbatim>\<open>None\<close> or the float \<^verbatim>\<open>nan\<close>. Exceptions are values of
  \<open>error\<close>; a call that may raise returns \<open>error + 'a\<close> with \<open>Inl\<close> for the exception.
  \<open>External\<close> stands for an exception raised inside a third-party library whose class
  the scripts do not determine (network, tokenizer, model, metric, tensor construction).

  The abstract base classes and the decorator \<^verbatim>\<open>report_time\<close> of \<^verbatim>\<open>core_utils\<close> are not
  among the sources. The records below hold the attributes the methods read and write
  (\<^verbatim>\<open>_hf_name\<close>, \<^verbatim>\<open>_raw_data\<close>, \<^verbatim>\<open>_data\<close>, \<^verbatim>\<open>_model\<close>, \<^verbatim>\<open>_dataset\<close>, \<^verbatim>\<open>_batch_size\<close>,
  \<^verbatim>\<open>data_path\<close>, \<^verbatim>\<open>metrics\<close>); \<^verbatim>\<open>report_time\<close> only measures the time of a call and
  returns or raises what the call does.
\<close>

datatype error = TypeError | ValueError | KeyError | IndexError | RuntimeError | External string

datatype cell = Str string | Bool bool | Num int | NoneV | NaN

text \<open>
  Modelled from the spec: the enumeration \<^verbatim>\<open>ColumnNames\<close> of
  \<^verbatim>\<open>core_utils.llm.raw_data_preprocessor\<close> is not among the sources. The code uses its
  members \<^verbatim>\<open>SOURCE\<close>, \<^verbatim>\<open>TARGET\<close>, \<^verbatim>\<open>PREDICTION\<close> and their \<^verbatim>\<open>.value\<close>; the spec names
  the written columns "target" and "prediction". A member is a column label of its own,
  different from every plain string label.
\<close>

datatype ColumnNames = SOURCE | TARGET | PREDICTION

fun ColumnNames_value :: "ColumnNames \<Rightarrow> string" where
  "ColumnNames_value SOURCE = ''source''"
| "ColumnNames_value TARGET = ''target''"
| "ColumnNames_value PREDICTION = ''prediction''"

datatype label = Name string | Member ColumnNames

text \<open>Sequencing of calls that may raise: the first exception ends the computation.\<close>

definition and_then :: "error + 'a \<Rightarrow> ('a \<Rightarrow> error + 'b) \<Rightarrow> error + 'b" where
  "and_then r k = (case r of Inl e \<Rightarrow> Inl e | Inr v \<Rightarrow> k v)"

text \<open>A loop or comprehension whose body may raise, collecting the results in order.\<close>

fun for_each :: "('a \<Rightarrow> error + 'b) \<Rightarrow> 'a list \<Rightarrow> error + 'b list" where
  "for_each f [] = Inr []"
| "for_each f (x # xs) =
     (case f x of
        Inl e \<Rightarrow> Inl e
      | Inr y \<Rightarrow> (case for_each f xs of Inl e \<Rightarrow> Inl e | Inr ys \<Rightarrow> Inr (y # ys)))"

section \<open>Tables (pandas DataFrame)\<close>

text \<open>
  A table has column labels, one index label per row and the rows, each row holding one
  cell per column. The operations below are the pandas calls the scripts make, with the
  behaviour of their default arguments.
\<close>

record frame =
  columns :: "label list"
  index :: "int list"
  rows :: "cell list list"

text \<open>
  A table as \<^verbatim>\<open>Dataset.to_pandas()\<close> returns it: distinct string labels, a
  \<^verbatim>\<open>RangeIndex\<close>, rectangular rows.
\<close>

definition raw_table :: "frame \<Rightarrow> bool" where
  "raw_table df \<longleftrightarrow>
     distinct (columns df) \<and>
     list_all (\<lambda>l. case l of Name _ \<Rightarrow> True | Member _ \<Rightarrow> False) (columns df) \<and>
     index df = map int [0..<length (rows df)] \<and>
     list_all (\<lambda>r. length r = length (columns df)) (rows df)"

fun get_loc :: "label \<Rightarrow> label list \<Rightarrow> nat option" where
  "get_loc l [] = None"
| "get_loc l (c # cs) = (if c = l then Some 0 else map_option Suc (get_loc l cs))"

text \<open>\<^verbatim>\<open>df[label]\<close>: the column as a list of cells, \<^verbatim>\<open>KeyError\<close> for a missing label.\<close>

definition getitem :: "frame \<Rightarrow> label \<Rightarrow> error + cell list" where
  "getitem df l =
     (case get_loc l (columns df) of
        None \<Rightarrow> Inl KeyError
      | Some j \<Rightarrow> Inr (map (\<lambda>r. r ! j) (rows df)))"

text \<open>
  \<^verbatim>\<open>df[label] = values\<close>: replaces the column, or appends a new one; a length mismatch
  raises \<^verbatim>\<open>ValueError\<close>.
\<close>

definition setitem :: "label \<Rightarrow> cell list \<Rightarrow> frame \<Rightarrow> error + frame" where
  "setitem l vs df =
     (if length vs \<noteq> length (rows df) then Inl ValueError
      else case get_loc l (columns df) of
        None \<Rightarrow> Inr (df\<lparr>columns := columns df @ [l],
                         rows := map (\<lambda>(r, v). r @ [v]) (zip (rows df) vs)\<rparr>)
      | Some j \<Rightarrow> Inr (df\<lparr>rows := map (\<lambda>(r, v). r[j := v]) (zip (rows df) vs)\<rparr>))"

text \<open>\<^verbatim>\<open>df.rename(columns=m)\<close>: labels that are not keys of \<open>m\<close> stay.\<close>

definition rename :: "(label \<rightharpoonup> label) \<Rightarrow> frame \<Rightarrow> frame" where
  "rename m df =
     df\<lparr>columns := map (\<lambda>l. case m l of None \<Rightarrow> l | Some l' \<Rightarrow> l') (columns df)\<rparr>"

text \<open>
  Two cells are the same value for duplicate detection when Python compares them equal
  (\<^verbatim>\<open>True == 1\<close>, \<^verbatim>\<open>False == 0\<close>) or both are missing values.
\<close>

fun hash_key :: "cell \<Rightarrow> cell" where
  "hash_key (Bool b) = Num (if b then 1 else 0)"
| "hash_key NoneV = NaN"
| "hash_key c = c"

text \<open>\<^verbatim>\<open>df.duplicated()\<close>: marks every row that repeats an earlier row.\<close>

fun duplicated_from :: "cell list list \<Rightarrow> cell list list \<Rightarrow> bool list" where
  "duplicated_from seen [] = []"
| "duplicated_from seen (r # rs) =
     (map hash_key r \<in> set seen) # duplicated_from (map hash_key r # seen) rs"

definition duplicated :: "frame \<Rightarrow> bool list" where
  "duplicated df = duplicated_from [] (rows df)"

text \<open>Boolean-mask selection: the entries whose mask bit is set.\<close>

definition select :: "bool list \<Rightarrow> 'a list \<Rightarrow> 'a list" where
  "select keep xs = map snd (filter fst (zip keep xs))"

text \<open>\<^verbatim>\<open>df.drop_duplicates()\<close>: keeps the first row of each group, with its index label.\<close>

definition drop_duplicates :: "frame \<Rightarrow> frame" where
  "drop_duplicates df =
     (let keep = map Not (duplicated df)
      in df\<lparr>index := select keep (index df), rows := select keep (rows df)\<rparr>)"

text \<open>
  \<^verbatim>\<open>df.reset_index()\<close>: the old index becomes the first column, named \<^verbatim>\<open>index\<close>, or
  \<^verbatim>\<open>level_0\<close> when \<^verbatim>\<open>index\<close> is taken; \<^verbatim>\<open>ValueError\<close> when that name is taken too.
  The new index is a range.
\<close>

definition reset_index :: "frame \<Rightarrow> error + frame" where
  "reset_index df =
     (let name = (if Name ''index'' \<notin> set (columns df) then Name ''index''
                  else Name ''level_0'')
      in if name \<in> set (columns df) then Inl ValueError
         else Inr \<lparr>columns = name # columns df,
                   index = map int [0..<length (rows df)],
                   rows = map (\<lambda>(i, r). Num i # r) (zip (index df) (rows df))\<rparr>)"

text \<open>
  \<^verbatim>\<open>df.drop(labels, axis=1)\<close>: removes the named columns, \<^verbatim>\<open>KeyError\<close> when a label
  is missing.
\<close>

definition drop_columns :: "label list \<Rightarrow> frame \<Rightarrow> error + frame" where
  "drop_columns ls df =
     (if \<not> list_all (\<lambda>l. l \<in> set (columns df)) ls then Inl KeyError
      else let keep = map (\<lambda>c. c \<notin> set ls) (columns df)
           in Inr (df\<lparr>columns := select keep (columns df),
                       rows := map (select keep) (rows df)\<rparr>))"

section \<open>The object store\<close>

text \<open>
  In-place pandas calls mutate the table an attribute refers to. Tables live in a store;
  an attribute holds a reference (a position in the store). \<^verbatim>\<open>df.copy()\<close> allocates a new
  table with the same content.
\<close>

type_synonym ref = nat
type_synonym heap = "frame list"

definition copy :: "ref \<Rightarrow> heap \<Rightarrow> ref \<times> heap" where
  "copy r h = (length h, h @ [h ! r])"

record preprocessor =
  raw_data :: ref
  data :: "ref option"

section \<open>Lab 7: RawDataPreprocessor\<close>

text \<open>
  \<^verbatim>\<open>RawDataPreprocessor.transform\<close> of lab 7: copy, rename in place, drop duplicates in
  place, map the target column to 0/1 (\<^verbatim>\<open>1 if x is True else 0\<close>), reset the index in
  place. The result is the outcome, the object and the store; an exception leaves the
  store as the calls before it made it.
\<close>

definition lab7_transform :: "preprocessor \<Rightarrow> heap \<Rightarrow> (error + unit) \<times> preprocessor \<times> heap" where
  "lab7_transform self h =
     (let (d, h1) = copy (raw_data self) h;
          self1 = self\<lparr>data := Some d\<rparr>;
          h2 = h1[d := rename [Name ''neutral'' \<mapsto> Member SOURCE,
                               Name ''toxic'' \<mapsto> Member TARGET] (h1 ! d)];
          h3 = h2[d := drop_duplicates (h2 ! d)]
      in case getitem (h3 ! d) (Member TARGET) of
           Inl e \<Rightarrow> (Inl e, self1, h3)
         | Inr col \<Rightarrow>
             (case setitem (Member TARGET)
                     (map (\<lambda>x. if x = Bool True then Num 1 else Num 0) col) (h3 ! d) of
                Inl e \<Rightarrow> (Inl e, self1, h3)
              | Inr df \<Rightarrow>
                  (let h4 = h3[d := df]
                   in case reset_index (h4 ! d) of
                        Inl e \<Rightarrow> (Inl e, self1, h4)
                      | Inr df' \<Rightarrow> (Inr (), self1, h4[d := df']))))"

text \<open>
  \<^verbatim>\<open>RawDataPreprocessor.analyze\<close>, the same in both labs but for the name of the text
  column. \<^verbatim>\<open>Series.map(len, na_action='ignore')\<close> raises \<^verbatim>\<open>TypeError\<close> on a value without
  a length and passes missing values through; \<^verbatim>\<open>replace\<close> and \<^verbatim>\<open>dropna\<close> return new
  tables; \<^verbatim>\<open>min\<close> and \<^verbatim>\<open>max\<close> skip missing values.
\<close>

fun len_ignore_na :: "cell \<Rightarrow> error + cell" where
  "len_ignore_na (Str s) = Inr (Num (int (length s)))"
| "len_ignore_na NoneV = Inr NoneV"
| "len_ignore_na NaN = Inr NaN"
| "len_ignore_na c = Inl TypeError"

fun isna :: "cell \<Rightarrow> bool" where
  "isna NoneV = True"
| "isna NaN = True"
| "isna c = False"

definition replace_cells :: "cell \<Rightarrow> cell \<Rightarrow> frame \<Rightarrow> frame" where
  "replace_cells old new df = df\<lparr>rows := map (map (\<lambda>c. if c = old then new else c)) (rows df)\<rparr>"

definition dropna :: "frame \<Rightarrow> frame" where
  "dropna df =
     (let keep = map (\<lambda>r. \<not> list_ex isna r) (rows df)
      in df\<lparr>index := select keep (index df), rows := select keep (rows df)\<rparr>)"

definition series_min :: "cell list \<Rightarrow> cell" where
  "series_min cs = (case [n. Num n \<leftarrow> cs] of [] \<Rightarrow> NaN | n # ns \<Rightarrow> Num (fold min ns n))"

definition series_max :: "cell list \<Rightarrow> cell" where
  "series_max cs = (case [n. Num n \<leftarrow> cs] of [] \<Rightarrow> NaN | n # ns \<Rightarrow> Num (fold max ns n))"

record analysis =
  dataset_number_of_samples :: nat
  dataset_columns :: nat
  dataset_duplicates :: nat
  dataset_empty_rows :: nat
  dataset_sample_min_len :: cell
  dataset_sample_max_len :: cell

definition analyze :: "label \<Rightarrow> preprocessor \<Rightarrow> heap \<Rightarrow> (error + analysis) \<times> heap" where
  "analyze text_column self h =
     (case and_then (getitem (h ! raw_data self) text_column) (for_each len_ignore_na) of
        Inl e \<Rightarrow> (Inl e, h)
      | Inr lens \<Rightarrow>
          (let replaced = length h;
               h1 = h @ [replace_cells (Str []) NaN (h ! raw_data self)];
               data_no_na = length h1;
               h2 = h1 @ [dropna (h1 ! replaced)]
           in (Inr \<lparr>dataset_number_of_samples = length (rows (h2 ! raw_data self)),
                    dataset_columns = length (columns (h2 ! raw_data self)),
                    dataset_duplicates = length (filter id (duplicated (h2 ! raw_data self))),
                    dataset_empty_rows =
                      length (rows (h2 ! raw_data self)) - length (rows (h2 ! data_no_na)),
                    dataset_sample_min_len = series_min lens,
                    dataset_sample_max_len = series_max lens\<rparr>, h2)))"

definition lab7_analyze :: "preprocessor \<Rightarrow> heap \<Rightarrow> (error + analysis) \<times> heap" where
  "lab7_analyze = analyze (Name ''neutral'')"

section \<open>Lab 8: RawDataPreprocessor\<close>

definition lab8_analyze :: "preprocessor \<Rightarrow> heap \<Rightarrow> (error + analysis) \<times> heap" where
  "lab8_analyze = analyze (Name ''article_content'')"

text \<open>
  \<^verbatim>\<open>RawDataPreprocessor.transform\<close> of lab 8: copy, drop three columns in place, rename in
  place, reset the index in place. It never calls \<^verbatim>\<open>drop_duplicates\<close>.
\<close>

definition lab8_transform :: "preprocessor \<Rightarrow> heap \<Rightarrow> (error + unit) \<times> preprocessor \<times> heap" where
  "lab8_transform self h =
     (let (d, h1) = copy (raw_data self) h;
          self1 = self\<lparr>data := Some d\<rparr>
      in case drop_columns [Name ''title'', Name ''date'', Name ''url''] (h1 ! d) of
           Inl e \<Rightarrow> (Inl e, self1, h1)
         | Inr df \<Rightarrow>
             (let h2 = h1[d := df];
                  h3 = h2[d := rename [Name ''article_content'' \<mapsto> Member SOURCE,
                                       Name ''summary'' \<mapsto> Member TARGET] (h2 ! d)]
              in case reset_index (h3 ! d) of
                   Inl e \<Rightarrow> (Inl e, self1, h3)
                 | Inr df' \<Rightarrow> (Inr (), self1, h3[d := df'])))"

section \<open>RawDataImporter\<close>

text \<open>
  \<^verbatim>\<open>RawDataImporter.obtain\<close>, the same in both labs. The parameter \<open>load_to_pandas\<close>
  is \<^verbatim>\<open>load_dataset(name, split='train').to_pandas()\<close>, which may raise or return a
  table or another object. The attribute is assigned before the type check.
\<close>

datatype pyobj = DataFrame frame | OtherObject

record importer =
  hf_name :: string
  importer_raw_data :: "pyobj option"

definition importer_obtain ::
  "(string \<Rightarrow> error + pyobj) \<Rightarrow> importer \<Rightarrow> (error + unit) \<times> importer" where
  "importer_obtain load_to_pandas self =
     (case load_to_pandas (hf_name self) of
        Inl e \<Rightarrow> (Inl e, self)
      | Inr loaded \<Rightarrow>
          (let self1 = self\<lparr>importer_raw_data := Some loaded\<rparr>
           in case loaded of
                DataFrame df \<Rightarrow> (Inr (), self1)
              | OtherObject \<Rightarrow> (Inl TypeError, self1)))"

section \<open>TaskDataset and DataLoader\<close>

text \<open>Python's \<^verbatim>\<open>str\<close> on a cell.\<close>

fun str_nat :: "nat \<Rightarrow> string" where
  "str_nat n =
     (if n < 10 then [''0123456789'' ! n]
      else str_nat (n div 10) @ [''0123456789'' ! (n mod 10)])"

definition str_int :: "int \<Rightarrow> string" where
  "str_int i = (if i < 0 then CHR ''-'' # str_nat (nat (- i)) else str_nat (nat i))"

fun py_str :: "cell \<Rightarrow> string" where
  "py_str (Str s) = s"
| "py_str (Bool b) = (if b then ''True'' else ''False'')"
| "py_str (Num i) = str_int i"
| "py_str NoneV = ''None''"
| "py_str NaN = ''nan''"

text \<open>
  \<^verbatim>\<open>TaskDataset.__getitem__\<close>: a one-element tuple holding the source text of row \<open>i\<close>
  (\<^verbatim>\<open>iloc\<close> raises \<^verbatim>\<open>IndexError\<close> out of range). Lab 8 wraps the cell in \<^verbatim>\<open>str\<close>.
\<close>

definition lab7_getitem :: "frame \<Rightarrow> nat \<Rightarrow> error + cell list" where
  "lab7_getitem df i =
     and_then (getitem df (Member SOURCE))
       (\<lambda>col. if i < length col then Inr [col ! i] else Inl IndexError)"

definition lab8_getitem :: "frame \<Rightarrow> nat \<Rightarrow> error + cell list" where
  "lab8_getitem df i =
     and_then (getitem df (Member SOURCE))
       (\<lambda>col. if i < length col then Inr [Str (py_str (col ! i))] else Inl IndexError)"

text \<open>
  \<^verbatim>\<open>DataLoader(dataset, batch_size)\<close> with its defaults: the indices in order, cut into
  batches of \<open>batch_size\<close> (the last one may be shorter); each batch is fetched when the
  loop reaches it and collated by \<^verbatim>\<open>default_collate\<close>.
\<close>

function batches :: "nat \<Rightarrow> 'a list \<Rightarrow> 'a list list" where
  "batches n xs = (if n = 0 \<or> xs = [] then [] else take n xs # batches n (drop n xs))"
  by pat_completeness auto
termination
  by (relation "measure (\<lambda>(n, xs). length xs)") auto

declare batches.simps [simp del]

text \<open>
  torch's \<^verbatim>\<open>default_collate\<close> on a batch of tuples: the tuples must have one length
  (\<^verbatim>\<open>RuntimeError\<close> otherwise) and are transposed; each resulting column is collated by
  the type of its first element. A column that starts with a string is returned as it is;
  a column that starts with a number becomes a tensor, here the list of its elements, and
  the tensor construction raises when an element is not a number; for a column that
  starts with \<^verbatim>\<open>None\<close> there is no collate function and \<^verbatim>\<open>TypeError\<close> is raised.
\<close>

fun is_number :: "cell \<Rightarrow> bool" where
  "is_number (Num i) = True"
| "is_number (Bool b) = True"
| "is_number NaN = True"
| "is_number c = False"

fun collate :: "cell list \<Rightarrow> error + cell list" where
  "collate [] = Inl IndexError"
| "collate (Str s # rest) = Inr (Str s # rest)"
| "collate (NoneV # rest) = Inl TypeError"
| "collate (c # rest) =
     (if list_all is_number (c # rest) then Inr (c # rest)
      else Inl (External ''torch.tensor''))"

definition default_collate :: "cell list list \<Rightarrow> error + cell list list" where
  "default_collate batch =
     (case batch of
        [] \<Rightarrow> Inl IndexError
      | s # _ \<Rightarrow>
          if \<not> list_all (\<lambda>t. length t = length s) batch then Inl RuntimeError
          else for_each collate (map (\<lambda>j. map (\<lambda>t. t ! j) batch) [0..<length s]))"

definition DataLoader ::
  "(nat \<Rightarrow> error + cell list) \<Rightarrow> nat \<Rightarrow> nat \<Rightarrow> (error + cell list list) list" where
  "DataLoader dataset_getitem dataset_len batch_size =
     map (\<lambda>indices. and_then (for_each dataset_getitem indices) default_collate)
       (batches batch_size [0..<dataset_len])"

section \<open>LLMPipeline\<close>

text \<open>
  The pipeline object. \<open>model\<close> is \<^verbatim>\<open>None\<close> or the loaded model together with its
  tokenizer: a function from the texts of one batch to one output per text (the argmax
  of the logits in lab 7, the decoded generated sequence in lab 8), which may raise.
\<close>

record 'p pipeline =
  model :: "(cell list \<Rightarrow> error + 'p list) option"
  dataset :: frame
  batch_size :: int

text \<open>
  \<^verbatim>\<open>LLMPipeline._infer_batch\<close>: the null-model guard, then the texts
  \<^verbatim>\<open>list(sample_batch[0])\<close> go to the tokenizer and the model, and each output is turned
  into a string.
\<close>

definition lab7_infer_batch :: "int pipeline \<Rightarrow> cell list list \<Rightarrow> error + string list" where
  "lab7_infer_batch self sample_batch =
     (case model self of
        None \<Rightarrow> Inl ValueError
      | Some m \<Rightarrow>
          (case sample_batch of
             [] \<Rightarrow> Inl IndexError
           | texts # _ \<Rightarrow> and_then (m texts) (\<lambda>logits. Inr (map str_int logits))))"

definition lab8_infer_batch :: "string pipeline \<Rightarrow> cell list list \<Rightarrow> error + string list" where
  "lab8_infer_batch self sample_batch =
     (case model self of
        None \<Rightarrow> Inl ValueError
      | Some m \<Rightarrow>
          (case sample_batch of
             [] \<Rightarrow> Inl IndexError
           | texts # _ \<Rightarrow> and_then (m texts) (\<lambda>output_seqs. Inr (map (\<lambda>seq. seq) output_seqs))))"

text \<open>
  \<^verbatim>\<open>LLMPipeline.infer_sample\<close>: \<^verbatim>\<open>None\<close> when there is no model, else the first
  prediction of the one-sample batch.
\<close>

definition first_item :: "'a list \<Rightarrow> error + 'a" where
  "first_item xs = (case xs of [] \<Rightarrow> Inl IndexError | x # _ \<Rightarrow> Inr x)"

definition lab7_infer_sample :: "int pipeline \<Rightarrow> cell list \<Rightarrow> error + string option" where
  "lab7_infer_sample self sample =
     (if model self \<noteq> None
      then and_then (and_then (lab7_infer_batch self [sample]) first_item) (\<lambda>p. Inr (Some p))
      else Inr None)"

definition lab8_infer_sample :: "string pipeline \<Rightarrow> cell list \<Rightarrow> error + string option" where
  "lab8_infer_sample self sample =
     (if model self \<noteq> None
      then and_then (and_then (lab8_infer_batch self [sample]) first_item) (\<lambda>p. Inr (Some p))
      else Inr None)"

text \<open>
  \<^verbatim>\<open>pd.DataFrame({target: series, prediction: preds})\<close>: the index of the series, the
  two columns in the order of the dictionary; \<^verbatim>\<open>ValueError\<close> when the list is not as long
  as the index.
\<close>

definition DataFrame_of ::
  "label \<Rightarrow> int list \<Rightarrow> cell list \<Rightarrow> label \<Rightarrow> cell list \<Rightarrow> error + frame" where
  "DataFrame_of a series_index series b values =
     (if length values \<noteq> length series_index then Inl ValueError
      else Inr \<lparr>columns = [a, b], index = series_index,
                rows = map (\<lambda>(x, y). [x, y]) (zip series values)\<rparr>)"

text \<open>
  \<^verbatim>\<open>LLMPipeline.infer_dataset\<close>: the batches are inferred in order and their predictions
  concatenated (\<^verbatim>\<open>sum(..., [])\<close> in lab 7, \<^verbatim>\<open>extend\<close> in lab 8); then the target column
  is read and the table built. \<^verbatim>\<open>DataLoader\<close> refuses a batch size that is not positive.
\<close>

definition lab7_infer_dataset :: "int pipeline \<Rightarrow> error + frame" where
  "lab7_infer_dataset self =
     (if batch_size self \<le> 0 then Inl ValueError
      else and_then
        (for_each (\<lambda>batch. and_then batch (lab7_infer_batch self))
           (DataLoader (lab7_getitem (dataset self)) (length (rows (dataset self)))
              (nat (batch_size self))))
        (\<lambda>per_batch. and_then (getitem (dataset self) (Member TARGET))
           (\<lambda>target. DataFrame_of (Name (ColumnNames_value TARGET)) (index (dataset self)) target
              (Name (ColumnNames_value PREDICTION)) (map Str (concat per_batch)))))"

definition lab8_infer_dataset :: "string pipeline \<Rightarrow> error + frame" where
  "lab8_infer_dataset self =
     (if batch_size self \<le> 0 then Inl ValueError
      else and_then
        (for_each (\<lambda>batch. and_then batch (lab8_infer_batch self))
           (DataLoader (lab8_getitem (dataset self)) (length (rows (dataset self)))
              (nat (batch_size self))))
        (\<lambda>per_batch. and_then (getitem (dataset self) (Member TARGET))
           (\<lambda>target. DataFrame_of (Name (ColumnNames_value TARGET)) (index (dataset self)) target
              (Name (ColumnNames_value PREDICTION)) (map Str (concat per_batch)))))"

section \<open>TaskEvaluator\<close>

text \<open>
  Modelled from the spec: the enumeration \<^verbatim>\<open>Metrics\<close> of \<^verbatim>\<open>core_utils.llm.metrics\<close> is not
  among the sources. A metric is represented by its name \<^verbatim>\<open>str(metric)\<close>, under which
  \<^verbatim>\<open>evaluate.load\<close> finds it; the value of the member \<^verbatim>\<open>ROUGE\<close> is the name \<^verbatim>\<open>rouge\<close>.
\<close>

definition Metrics_ROUGE_value :: string where
  "Metrics_ROUGE_value = ''rouge''"

text \<open>
  The evaluator holds the path of the predictions file and the metrics. \<open>read_csv\<close> is
  \<^verbatim>\<open>pd.read_csv\<close>; \<open>load\<close> is \<^verbatim>\<open>evaluate.load\<close>, returning the metric's \<^verbatim>\<open>compute\<close> as
  a function of the \<^verbatim>\<open>predictions\<close> argument and the \<^verbatim>\<open>references\<close> argument, in this
  order, to a dictionary of scores.
\<close>

record evaluator =
  data_path :: string
  metrics :: "string list"

type_synonym 's metric = "cell list \<Rightarrow> cell list \<Rightarrow> error + (string \<rightharpoonup> 's)"

text \<open>
  \<^verbatim>\<open>TaskEvaluator.run\<close> of lab 7: \<^verbatim>\<open>predictions=target2pred[TARGET.value]\<close>,
  \<^verbatim>\<open>references=target2pred[PREDICTION.value]\<close>, and \<^verbatim>\<open>results.update(result)\<close>.
\<close>

fun lab7_run_loop ::
  "(string \<Rightarrow> error + 's metric) \<Rightarrow> frame \<Rightarrow> string list \<Rightarrow> (string \<rightharpoonup> 's) \<Rightarrow> error + (string \<rightharpoonup> 's)" where
  "lab7_run_loop load target2pred [] results = Inr results"
| "lab7_run_loop load target2pred (metric # rest) results =
     and_then (load metric) (\<lambda>compute.
     and_then (getitem target2pred (Name (ColumnNames_value TARGET))) (\<lambda>predictions.
     and_then (getitem target2pred (Name (ColumnNames_value PREDICTION))) (\<lambda>references.
     and_then (compute predictions references) (\<lambda>result.
       lab7_run_loop load target2pred rest (results ++ result)))))"

definition lab7_run ::
  "(string \<Rightarrow> error + frame) \<Rightarrow> (string \<Rightarrow> error + 's metric) \<Rightarrow> evaluator \<Rightarrow> error + (string \<rightharpoonup> 's)" where
  "lab7_run read_csv load self =
     and_then (read_csv (data_path self))
       (\<lambda>target2pred. lab7_run_loop load target2pred (metrics self) Map.empty)"

text \<open>
  \<^verbatim>\<open>TaskEvaluator.run\<close> of lab 8: \<^verbatim>\<open>predictions=target2pred[PREDICTION.value]\<close>,
  \<^verbatim>\<open>references=target2pred[TARGET.value]\<close>; the score kept is \<^verbatim>\<open>result['rougeL']\<close> for
  the metric \<^verbatim>\<open>Metrics.ROUGE\<close> and \<^verbatim>\<open>result[metric]\<close> otherwise.
\<close>

definition dict_get :: "(string \<rightharpoonup> 's) \<Rightarrow> string \<Rightarrow> error + 's" where
  "dict_get d k = (case d k of None \<Rightarrow> Inl KeyError | Some v \<Rightarrow> Inr v)"

fun lab8_run_loop ::
  "(string \<Rightarrow> error + 's metric) \<Rightarrow> frame \<Rightarrow> string list \<Rightarrow> (string \<rightharpoonup> 's) \<Rightarrow> error + (string \<rightharpoonup> 's)" where
  "lab8_run_loop load target2pred [] results = Inr results"
| "lab8_run_loop load target2pred (metric # rest) results =
     and_then (load metric) (\<lambda>compute.
     and_then (getitem target2pred (Name (ColumnNames_value PREDICTION))) (\<lambda>predictions.
     and_then (getitem target2pred (Name (ColumnNames_value TARGET))) (\<lambda>references.
     and_then (compute predictions references) (\<lambda>result.
     and_then (dict_get result (if metric = Metrics_ROUGE_value then ''rougeL'' else metric))
       (\<lambda>score.
       lab8_run_loop load target2pred rest (results(metric \<mapsto> score)))))))"

definition lab8_run ::
  "(string \<Rightarrow> error + frame) \<Rightarrow> (string \<Rightarrow> error + 's metric) \<Rightarrow> evaluator \<Rightarrow> error + (string \<rightharpoonup> 's)" where
  "lab8_run read_csv load self =
     and_then (read_csv (data_path self))
       (\<lambda>target2pred. lab8_run_loop load target2pred (metrics self) Map.empty)"

section \<open>Observing the preprocessed table\<close>

text \<open>The table the attribute \<^verbatim>\<open>_data\<close> refers to.\<close>

definition data_of :: "preprocessor \<Rightarrow> heap \<Rightarrow> frame" where
  "data_of self h = h ! the (data self)"

text \<open>A table whose index and rows fit its columns.\<close>

definition rectangular :: "frame \<Rightarrow> bool" where
  "rectangular df \<longleftrightarrow>
     length (index df) = length (rows df) \<and>
     list_all (\<lambda>r. length r = length (columns df)) (rows df)"


abbreviation only_names :: "label list \<Rightarrow> bool" where
  "only_names \<equiv> list_all (\<lambda>l. case l of Name _ \<Rightarrow> True | Member _ \<Rightarrow> False)"

abbreviation lab7_names :: "label \<rightharpoonup> label" where
  "lab7_names \<equiv> [Name ''neutral'' \<mapsto> Member SOURCE, Name ''toxic'' \<mapsto> Member TARGET]"

abbreviation is_true :: "cell \<Rightarrow> cell" where
  "is_true \<equiv> (\<lambda>x. if x = Bool True then Num 1 else Num 0)"

abbreviation lab8_names :: "label \<rightharpoonup> label" where
  "lab8_names \<equiv>
     [Name ''article_content'' \<mapsto> Member SOURCE, Name ''summary'' \<mapsto> Member TARGET]"

abbreviation lab8_dropped :: "label list" where
  "lab8_dropped \<equiv> [Name ''title'', Name ''date'', Name ''url'']"

text \<open>The loop of \<^verbatim>\<open>infer_dataset\<close> over the batches of the loader.\<close>

abbreviation lab7_loop :: "int pipeline \<Rightarrow> error + string list list" where
  "lab7_loop p \<equiv>
     for_each (\<lambda>batch. and_then batch (lab7_infer_batch p))
       (DataLoader (lab7_getitem (dataset p)) (length (rows (dataset p))) (nat (batch_size p)))"

abbreviation lab8_loop :: "string pipeline \<Rightarrow> error + string list list" where
  "lab8_loop p \<equiv>
     for_each (\<lambda>batch. and_then batch (lab8_infer_batch p))
       (DataLoader (lab8_getitem (dataset p)) (length (rows (dataset p))) (nat (batch_size p)))"

section \<open>Example inputs\<close>

definition fresh_preprocessor :: preprocessor where
  "fresh_preprocessor = \<lparr>raw_data = 0, data = None\<rparr>"

definition toxic_table :: frame where
  "toxic_table =
     \<lparr>columns = [Name ''neutral'', Name ''toxic''], index = [0, 1, 2],
      rows = [[Str ''a'', Bool True], [Str ''b'', Bool False], [Str ''a'', Bool True]]\<rparr>"

definition news_table :: frame where
  "news_table =
     \<lparr>columns = [Name ''title'', Name ''date'', Name ''url'', Name ''article_content'',
                 Name ''summary''],
      index = [0, 1],
      rows = [[Str ''t'', Str ''d'', Str ''u'', Str ''text'', Str ''sum''],
              [Str ''t'', Str ''d'', Str ''u'', Str ''text'', Str ''sum'']]\<rparr>"

definition fresh_importer :: importer where
  "fresh_importer = \<lparr>hf_name = ''dataset'', importer_raw_data = None\<rparr>"

definition null_pipeline :: "'p pipeline" where
  "null_pipeline = \<lparr>model = None, dataset = toxic_table, batch_size = 2\<rparr>"

definition example_dataset :: frame where
  "example_dataset =
     \<lparr>columns = [Name ''index'', Member SOURCE, Member TARGET], index = [0, 1, 2],
      rows = [[Num 0, Str ''a'', Num 1], [Num 1, Str ''b'', Num 0], [Num 3, Str ''c'', Num 1]]\<rparr>"

definition none_dataset :: frame where
  "none_dataset =
     \<lparr>columns = [Name ''index'', Member SOURCE, Member TARGET], index = [0, 1],
      rows = [[Num 0, NoneV, Num 1], [Num 1, Str ''a'', Num 0]]\<rparr>"

definition classifier :: "cell list \<Rightarrow> error + int list" where
  "classifier texts = Inr (map (\<lambda>t. if t = Str ''a'' then 1 else 0) texts)"

definition summarizer :: "cell list \<Rightarrow> error + string list" where
  "summarizer texts = Inr (map py_str texts)"

definition example_p7 :: "int pipeline" where
  "example_p7 = \<lparr>model = Some classifier, dataset = example_dataset, batch_size = 2\<rparr>"

definition example_p8 :: "string pipeline" where
  "example_p8 = \<lparr>model = Some summarizer, dataset = example_dataset, batch_size = 2\<rparr>"

definition none_p7 :: "int pipeline" where
  "none_p7 = \<lparr>model = Some classifier, dataset = none_dataset, batch_size = 2\<rparr>"

definition failing_classifier :: "cell list \<Rightarrow> error + int list" where
  "failing_classifier texts =
     (if Str ''c'' \<in> set texts then Inl (External ''out of memory'') else classifier texts)"

definition failing_summarizer :: "cell list \<Rightarrow> error + string list" where
  "failing_summarizer texts =
     (if Str ''c'' \<in> set texts then Inl (External ''out of memory'') else summarizer texts)"

definition failing_p7 :: "int pipeline" where
  "failing_p7 = \<lparr>model = Some failing_classifier, dataset = example_dataset, batch_size = 2\<rparr>"

definition failing_p8 :: "string pipeline" where
  "failing_p8 = \<lparr>model = Some failing_summarizer, dataset = example_dataset, batch_size = 2\<rparr>"

definition predictions_csv :: frame where
  "predictions_csv =
     \<lparr>columns = [Name ''target'', Name ''prediction''], index = [0, 1],
      rows = [[Num 1, Num 0], [Num 0, Num 0]]\<rparr>"

definition spy_metric :: "(cell list \<times> cell list) metric" where
  "spy_metric predictions references = Inr [''spy'' \<mapsto> (predictions, references)]"

definition broken_metric :: "(cell list \<times> cell list) metric" where
  "broken_metric predictions references = Inl (External ''metric failed'')"

definition example_load :: "string \<Rightarrow> error + (cell list \<times> cell list) metric" where
  "example_load name = (if name = ''spy'' then Inr spy_metric else Inr broken_metric)"

definition example_evaluator :: evaluator where
  "example_evaluator = \<lparr>data_path = ''predictions.csv'', metrics = [''spy'']\<rparr>"

definition failing_evaluator :: evaluator where
  "failing_evaluator = \<lparr>data_path = ''predictions.csv'', metrics = [''spy'', ''broken'']\<rparr>"

definition indexed_table :: frame where
  "indexed_table =
     \<lparr>columns = [Name ''neutral'', Name ''toxic'', Name ''index'', Name ''level_0''],
      index = [0],
      rows = [[Str ''a'', Bool True, Num 7, Num 8]]\<rparr>"

definition mixed_news_table :: frame where
  "mixed_news_table =
     \<lparr>columns = [Name ''article_content''], index = [0, 1], rows = [[Str ''x''], [Num 1]]\<rparr>"

definition silent_classifier :: "cell list \<Rightarrow> error + int list" where
  "silent_classifier texts = Inr []"

definition silent_p7 :: "int pipeline" where
  "silent_p7 = \<lparr>model = Some silent_classifier, dataset = example_dataset, batch_size = 2\<rparr>"

definition zero_batch_p7 :: "int pipeline" where
  "zero_batch_p7 = \<lparr>model = Some classifier, dataset = example_dataset, batch_size = 0\<rparr>"

definition unprepared_p8 :: "string pipeline" where
  "unprepared_p8 = \<lparr>model = Some summarizer, dataset = toxic_table, batch_size = 2\<rparr>"

definition no_target_dataset :: frame where
  "no_target_dataset =
     \<lparr>columns = [Name ''index'', Member SOURCE], index = [0], rows = [[Num 0, Str ''a'']]\<rparr>"

definition no_target_p8 :: "string pipeline" where
  "no_target_p8 = \<lparr>model = Some summarizer, dataset = no_target_dataset, batch_size = 2\<rparr>"

definition target_only_csv :: frame where
  "target_only_csv = \<lparr>columns = [Name ''target''], index = [0], rows = [[Num 1]]\<rparr>"

definition spy_load :: "string \<Rightarrow> error + (cell list \<times> cell list) metric" where
  "spy_load name = Inr spy_metric"

definition rouge_evaluator :: evaluator where
  "rouge_evaluator = \<lparr>data_path = ''predictions.csv'', metrics = [''spy'', ''rouge'']\<rparr>"

section \<open>The importer's type check\<close>

text \<open>
  C5. When the download returns an object, \<^verbatim>\<open>obtain\<close> raises \<^verbatim>\<open>TypeError\<close> exactly when
  that object is not a table; when it is a table, \<^verbatim>\<open>obtain\<close> raises nothing and the
  importer's raw data is that table.
\<close>

theorem obtain_type_check:
  "load_to_pandas (hf_name self) = Inr loaded \<Longrightarrow>
     (fst (importer_obtain load_to_pandas self) = Inl TypeError
        \<longleftrightarrow> (\<nexists>df. loaded = DataFrame df)) \<and>
     (\<forall>df. loaded = DataFrame df \<longrightarrow>
        importer_obtain load_to_pandas self =
          (Inr (), self\<lparr>importer_raw_data := Some (DataFrame df)\<rparr>))"
  by (cases loaded) (simp_all add: importer_obtain_def)

theorem obtain_type_check_witness:
  "fst (importer_obtain (\<lambda>n. Inr OtherObject) fresh_importer) = Inl TypeError \<and>
   importer_obtain (\<lambda>n. Inr (DataFrame toxic_table)) fresh_importer =
     (Inr (), fresh_importer\<lparr>importer_raw_data := Some (DataFrame toxic_table)\<rparr>)"
  using obtain_type_check [of "\<lambda>n. Inr OtherObject" fresh_importer OtherObject]
    obtain_type_check [of "\<lambda>n. Inr (DataFrame toxic_table)" fresh_importer
      "DataFrame toxic_table"]
  by simp

section \<open>The null-model guard\<close>

text \<open>
  C4. With no model, \<^verbatim>\<open>infer_sample\<close> returns \<^verbatim>\<open>None\<close> for every sample (no batch is
  inferred) and \<^verbatim>\<open>_infer_batch\<close> raises \<^verbatim>\<open>ValueError\<close> for every batch, in both labs.
\<close>

theorem null_model_guard:
  "model p7 = None \<Longrightarrow> model p8 = None \<Longrightarrow>
     lab7_infer_sample p7 sample = Inr None \<and>
     lab8_infer_sample p8 sample = Inr None \<and>
     lab7_infer_batch p7 sample_batch = Inl ValueError \<and>
     lab8_infer_batch p8 sample_batch = Inl ValueError"
  by (simp add: lab7_infer_sample_def lab8_infer_sample_def lab7_infer_batch_def
      lab8_infer_batch_def)

theorem null_model_guard_witness:
  "lab7_infer_sample null_pipeline [Str ''a''] = Inr None \<and>
   lab8_infer_sample null_pipeline [Str ''a''] = Inr None \<and>
   lab7_infer_batch null_pipeline [[Str ''a'', Str ''b'']] = Inl ValueError \<and>
   lab8_infer_batch null_pipeline [[Str ''a'', Str ''b'']] = Inl ValueError"
  using null_model_guard [of null_pipeline null_pipeline "[Str ''a'']" "[[Str ''a'', Str ''b'']]"]
  by (simp add: null_pipeline_def)

section \<open>Properties of the table operations\<close>

lemma length_duplicated_from: "length (duplicated_from seen rs) = length rs"
  by (induction rs arbitrary: seen) auto

lemma length_select:
  "length keep = length xs \<Longrightarrow> length (select keep xs) = length (filter id keep)"
  unfolding select_def
proof (induction keep xs rule: list_induct2)
  case Nil then show ?case by simp
next
  case (Cons k ks x xs) then show ?case by simp
qed

lemma kept_count:
  "length (filter Not (duplicated_from seen rs)) =
     card (set (map (map hash_key) rs) - set seen)"
proof (induction rs arbitrary: seen)
  case Nil then show ?case by simp
next
  case (Cons r rs)
  show ?case
  proof (cases "map hash_key r \<in> set seen")
    case True
    then have "set (map (map hash_key) (r # rs)) - set seen = set (map (map hash_key) rs) - set seen"
      by auto
    with True Cons.IH [of seen] Cons.IH [of "map hash_key r # seen"] show ?thesis
      by (simp add: insert_absorb)
  next
    case False
    have "set (map (map hash_key) (r # rs)) - set seen
        = insert (map hash_key r) (set (map (map hash_key) rs) - set (map hash_key r # seen))"
      using False by auto
    moreover have "map hash_key r \<notin> set (map (map hash_key) rs) - set (map hash_key r # seen)"
      by simp
    ultimately show ?thesis
      using False Cons.IH [of "map hash_key r # seen"] by (simp del: set_map)
  qed
qed

lemma rows_drop_duplicates_length:
  "length (rows (drop_duplicates df)) = card (set (map (map hash_key) (rows df)))"
proof -
  have "length (filter id (map Not (duplicated_from [] (rows df)))) = length (filter Not (duplicated_from [] (rows df)))"
    by (simp add: filter_map comp_def)
  then show ?thesis
    by (simp add: drop_duplicates_def duplicated_def Let_def length_select length_duplicated_from kept_count)
qed

lemma index_drop_duplicates_length:
  "length (index df) = length (rows df) \<Longrightarrow>
   length (index (drop_duplicates df)) = length (rows (drop_duplicates df))"
  by (simp add: drop_duplicates_def duplicated_def Let_def length_select length_duplicated_from)

lemma getitem_length: "getitem df l = Inr col \<Longrightarrow> length col = length (rows df)"
  by (auto simp: getitem_def split: option.splits)

lemma setitem_total:
  "length vs = length (rows df) \<Longrightarrow> \<exists>df'. setitem l vs df = Inr df'"
  by (simp add: setitem_def split: option.splits)

lemma lab7_transform_eq:
  "lab7_transform self h =
     (case getitem (drop_duplicates (rename lab7_names (h ! raw_data self))) (Member TARGET) of
        Inl e \<Rightarrow> (Inl e, self\<lparr>data := Some (length h)\<rparr>,
                  h @ [drop_duplicates (rename lab7_names (h ! raw_data self))])
      | Inr col \<Rightarrow>
          (case setitem (Member TARGET) (map is_true col)
                  (drop_duplicates (rename lab7_names (h ! raw_data self))) of
             Inl e \<Rightarrow> (Inl e, self\<lparr>data := Some (length h)\<rparr>,
                       h @ [drop_duplicates (rename lab7_names (h ! raw_data self))])
           | Inr df4 \<Rightarrow>
               (case reset_index df4 of
                  Inl e \<Rightarrow> (Inl e, self\<lparr>data := Some (length h)\<rparr>, h @ [df4])
                | Inr out \<Rightarrow> (Inr (), self\<lparr>data := Some (length h)\<rparr>, h @ [out]))))"
  by (simp add: lab7_transform_def copy_def Let_def split: sum.splits)

lemma lab7_transform_cases:
  assumes "lab7_transform self h = (r, self', h')"
  shows "self' = self\<lparr>data := Some (length h)\<rparr> \<and>
     (\<exists>out. h' = h @ [out] \<and>
       (let df3 = drop_duplicates (rename lab7_names (h ! raw_data self)) in
        (\<exists>e. r = Inl e \<and> getitem df3 (Member TARGET) = Inl e \<and> out = df3) \<or>
        (\<exists>col df4. getitem df3 (Member TARGET) = Inr col \<and>
           setitem (Member TARGET) (map is_true col) df3 = Inr df4 \<and>
           ((\<exists>e. r = Inl e \<and> reset_index df4 = Inl e \<and> out = df4) \<or>
            (r = Inr () \<and> reset_index df4 = Inr out)))))"
proof (cases "getitem (drop_duplicates (rename lab7_names (h ! raw_data self))) (Member TARGET)")
  case (Inl e)
  with assms have "r = Inl e" "self' = self\<lparr>data := Some (length h)\<rparr>"
    "h' = h @ [drop_duplicates (rename lab7_names (h ! raw_data self))]"
    by (simp_all add: lab7_transform_eq)
  with Inl show ?thesis by (simp add: Let_def)
next
  case (Inr col)
  from getitem_length [OF Inr]
  have "length (map is_true col) =
      length (rows (drop_duplicates (rename lab7_names (h ! raw_data self))))"
    by simp
  from setitem_total [OF this]
  obtain df4 where s: "setitem (Member TARGET) (map is_true col)
      (drop_duplicates (rename lab7_names (h ! raw_data self))) = Inr df4"
    by blast
  show ?thesis
  proof (cases "reset_index df4")
    case (Inl e)
    with Inr s assms have "r = Inl e" "self' = self\<lparr>data := Some (length h)\<rparr>"
      "h' = h @ [df4]"
      by (simp_all add: lab7_transform_eq)
    with Inr s Inl show ?thesis by (simp add: Let_def)
  next
    case r: (Inr out)
    with Inr s assms have "r = Inr ()" "self' = self\<lparr>data := Some (length h)\<rparr>"
      "h' = h @ [out]"
      by (simp_all add: lab7_transform_eq)
    with Inr s r show ?thesis by (simp add: Let_def)
  qed
qed

lemma get_loc_None: "get_loc l cs = None \<longleftrightarrow> l \<notin> set cs"
  by (induction cs) auto

lemma get_loc_Some: "get_loc l cs = Some j \<Longrightarrow> j < length cs \<and> cs ! j = l"
  by (induction cs arbitrary: j) (auto split: if_splits)

lemma get_loc_renamed:
  assumes "only_names cs" "m (Name a) = Some (Member c)"
    and "\<And>b. b \<noteq> a \<Longrightarrow> m (Name b) \<noteq> Some (Member c)"
  shows "get_loc (Member c) (map (\<lambda>l. case m l of None \<Rightarrow> l | Some l' \<Rightarrow> l') cs) = get_loc (Name a) cs"
  using assms(1)
proof (induction cs)
  case Nil then show ?case by simp
next
  case (Cons x cs)
  then obtain b where x: "x = Name b" by (cases x) auto
  show ?case
  proof (cases "b = a")
    case True with x assms(2) show ?thesis by simp
  next
    case False
    with assms(3) [of b] have "(case m (Name b) of None \<Rightarrow> Name b | Some l' \<Rightarrow> l') \<noteq> Member c"
      by (auto split: option.splits)
    with x False Cons show ?thesis by simp
  qed
qed

lemma drop_duplicates_rename:
  "drop_duplicates (rename m df) = rename m (drop_duplicates df)"
  by (simp add: drop_duplicates_def rename_def duplicated_def Let_def)

lemma getitem_rename:
  assumes "only_names (columns df)" "m (Name a) = Some (Member c)"
    and "\<And>b. b \<noteq> a \<Longrightarrow> m (Name b) \<noteq> Some (Member c)"
  shows "getitem (rename m df) (Member c) = getitem df (Name a)"
proof -
  have "get_loc (Member c) (columns (rename m df)) = get_loc (Name a) (columns df)"
    using get_loc_renamed [of "columns df" m a c] assms by (simp add: rename_def)
  moreover have "rows (rename m df) = rows df" by (simp add: rename_def)
  ultimately show ?thesis by (simp only: getitem_def)
qed

lemma getitem_rename_target:
  "only_names (columns df) \<Longrightarrow>
     getitem (rename lab7_names df) (Member TARGET) = getitem df (Name ''toxic'')"
  by (rule getitem_rename) simp_all

lemma getitem_rename_source:
  "only_names (columns df) \<Longrightarrow>
     getitem (rename lab7_names df) (Member SOURCE) = getitem df (Name ''neutral'')"
  by (rule getitem_rename) simp_all

lemma set_select: "set (select keep xs) \<subseteq> set xs"
  by (auto simp: select_def dest: set_zip_rightD)

lemma columns_drop_duplicates [simp]: "columns (drop_duplicates df) = columns df"
  by (simp add: drop_duplicates_def Let_def)

lemma raw_table_rectangular: "raw_table df \<Longrightarrow> rectangular df"
  by (simp add: raw_table_def rectangular_def)

lemma rectangular_drop_duplicates: "rectangular df \<Longrightarrow> rectangular (drop_duplicates df)"
  unfolding rectangular_def
  using index_drop_duplicates_length [of df] set_select [of "map Not (duplicated df)" "rows df"]
  by (auto simp: list_all_iff drop_duplicates_def Let_def)

lemma rectangular_rename: "rectangular df \<Longrightarrow> rectangular (rename m df)"
  by (simp add: rectangular_def rename_def)

lemma setitem_existing:
  assumes "rectangular df" "setitem l vs df = Inr df'" "l \<in> set (columns df)"
  shows "columns df' = columns df" "index df' = index df" "rectangular df'"
    "getitem df' l = Inr vs" "l' \<noteq> l \<Longrightarrow> getitem df' l' = getitem df l'"
    "length (rows df') = length (rows df)"
proof -
  from assms(3) obtain j where j: "get_loc l (columns df) = Some j"
    using get_loc_None [of l "columns df"] by (cases "get_loc l (columns df)") auto
  from assms(2) j have len: "length vs = length (rows df)"
    and df': "df' = df\<lparr>rows := map (\<lambda>(r, v). r[j := v]) (zip (rows df) vs)\<rparr>"
    by (auto simp: setitem_def split: if_splits)
  show "columns df' = columns df" "index df' = index df" using df' by simp_all
  show "length (rows df') = length (rows df)" using df' len by simp
  show "rectangular df'"
    using assms(1) df' len by (auto simp: rectangular_def list_all_iff dest: set_zip_leftD)
  have jlt: "\<And>r. r \<in> set (rows df) \<Longrightarrow> j < length r"
    using assms(1) get_loc_Some [OF j] by (auto simp: rectangular_def list_all_iff)
  have "map (\<lambda>r. r ! j) (map (\<lambda>(r, v). r[j := v]) (zip (rows df) vs)) = vs"
  proof (intro nth_equalityI)
    show "length (map (\<lambda>r. r ! j) (map (\<lambda>(r, v). r[j := v]) (zip (rows df) vs))) = length vs"
      using len by simp
  next
    fix i assume "i < length (map (\<lambda>r. r ! j) (map (\<lambda>(r, v). r[j := v]) (zip (rows df) vs)))"
    then have i: "i < length (rows df)" using len by simp
    then have "j < length (rows df ! i)" using jlt by simp
    with i len show "map (\<lambda>r. r ! j) (map (\<lambda>(r, v). r[j := v]) (zip (rows df) vs)) ! i = vs ! i"
      by simp
  qed
  then show "getitem df' l = Inr vs"
    using df' j by (simp add: getitem_def)
  show "getitem df' l' = getitem df l'" if "l' \<noteq> l"
  proof (cases "get_loc l' (columns df)")
    case None then show ?thesis using df' by (simp add: getitem_def)
  next
    case (Some j')
    with j that have "j' \<noteq> j" using get_loc_Some by blast
    then have "map (\<lambda>r. r ! j') (map (\<lambda>(r, v). r[j := v]) (zip (rows df) vs)) = map (\<lambda>r. r ! j') (rows df)"
      using len by (intro nth_equalityI) auto
    then show ?thesis using df' Some by (simp add: getitem_def)
  qed
qed

lemma reset_index_props:
  assumes "rectangular df" "reset_index df = Inr df'"
  shows "length (rows df') = length (rows df)"
    "\<exists>name. columns df' = Name name # columns df \<and> Name name \<notin> set (columns df)"
    "l \<in> set (columns df) \<Longrightarrow> getitem df' l = getitem df l"
    "index df' = map int [0..<length (rows df)]"
    "map hd (rows df') = map Num (index df)"
proof -
  let ?name = "if Name ''index'' \<notin> set (columns df) then Name ''index'' else Name ''level_0''"
  from assms(2) have fresh: "?name \<notin> set (columns df)"
    and df': "df' = \<lparr>columns = ?name # columns df, index = map int [0..<length (rows df)],
                   rows = map (\<lambda>(i, r). Num i # r) (zip (index df) (rows df))\<rparr>"
    by (auto simp: reset_index_def Let_def split: if_splits)
  have len: "length (index df) = length (rows df)" using assms(1) by (simp add: rectangular_def)
  show "length (rows df') = length (rows df)" using df' len by simp
  show "\<exists>name. columns df' = Name name # columns df \<and> Name name \<notin> set (columns df)"
    using df' fresh by (auto split: if_splits)
  show "index df' = map int [0..<length (rows df)]" using df' by simp
  show "map hd (rows df') = map Num (index df)"
    using df' len by (intro nth_equalityI) auto
  show "getitem df' l = getitem df l" if "l \<in> set (columns df)"
  proof -
    from that fresh have ne: "?name \<noteq> l" by metis
    from that obtain j where j: "get_loc l (columns df) = Some j"
      using get_loc_None [of l "columns df"] by (cases "get_loc l (columns df)") auto
    have "map (\<lambda>r. r ! Suc j) (map (\<lambda>(i, r). Num i # r) (zip (index df) (rows df))) = map (\<lambda>r. r ! j) (rows df)"
      using len by (intro nth_equalityI) auto
    then show ?thesis using df' j ne by (simp add: getitem_def)
  qed
qed

lemma getitem_Inr_member: "getitem df l = Inr col \<Longrightarrow> l \<in> set (columns df)"
  using get_loc_None [of l "columns df"] by (auto simp: getitem_def split: option.splits)

lemma member_getitem: "l \<in> set (columns df) \<Longrightarrow> \<exists>col. getitem df l = Inr col"
  using get_loc_None [of l "columns df"] by (auto simp: getitem_def split: option.splits)

lemma raw_table_names: "raw_table df \<Longrightarrow> only_names (columns df)"
  by (simp add: raw_table_def)

lemma distinct_select: "distinct xs \<Longrightarrow> distinct (select keep xs)"
proof (induction keep arbitrary: xs)
  case Nil then show ?case by (simp add: select_def)
next
  case (Cons k ks)
  show ?case
  proof (cases xs)
    case Nil then show ?thesis by (simp add: select_def)
  next
    case (Cons y ys)
    with Cons.prems Cons.IH [of ys] set_select [of ks ys] show ?thesis
      by (auto simp: select_def)
  qed
qed

lemma lab8_transform_cases:
  assumes "lab8_transform self h = (r, self', h')"
  shows "self' = self\<lparr>data := Some (length h)\<rparr> \<and>
     (\<exists>out. h' = h @ [out] \<and>
       ((\<exists>e. r = Inl e \<and> drop_columns lab8_dropped (h ! raw_data self) = Inl e \<and> out = h ! raw_data self) \<or>
        (\<exists>df. drop_columns lab8_dropped (h ! raw_data self) = Inr df \<and>
           ((\<exists>e. r = Inl e \<and> reset_index (rename lab8_names df) = Inl e \<and> out = rename lab8_names df) \<or>
            (r = Inr () \<and> reset_index (rename lab8_names df) = Inr out)))))"
proof (cases "drop_columns lab8_dropped (h ! raw_data self)")
  case (Inl e)
  with assms show ?thesis
    by (auto simp: lab8_transform_def copy_def Let_def)
next
  case (Inr df)
  with assms show ?thesis
    by (cases "reset_index (rename lab8_names df)") (auto simp: lab8_transform_def copy_def Let_def)
qed

lemma select_filter: "select (map P xs) xs = filter P xs"
  by (induction xs) (auto simp: select_def)

lemma get_loc_select:
  assumes "length r = length cs" "get_loc l cs = Some j" "P l"
  shows "\<exists>j'. get_loc l (select (map P cs) cs) = Some j' \<and> select (map P cs) r ! j' = r ! j"
  using assms
proof (induction cs r arbitrary: j rule: list_induct2')
  case (4 c cs x xs)
  show ?case
  proof (cases "c = l")
    case True
    with 4 show ?thesis by (simp add: select_def)
  next
    case False
    with 4(3) obtain k where k: "get_loc l cs = Some k" "j = Suc k"
      by (auto split: if_splits)
    from 4(2) have len: "length xs = length cs" by simp
    from 4(1) [OF len k(1) 4(4)] obtain j' where
      j': "get_loc l (select (map P cs) cs) = Some j'" "select (map P cs) xs ! j' = xs ! k"
      by blast
    with False k show ?thesis by (simp add: select_def)
  qed
qed simp_all

lemma drop_columns_props:
  assumes "rectangular df" "drop_columns ls df = Inr df'"
  shows "columns df' = filter (\<lambda>c. c \<notin> set ls) (columns df)"
    "index df' = index df" "length (rows df') = length (rows df)"
    "rectangular df'"
    "l \<notin> set ls \<Longrightarrow> getitem df' l = getitem df l"
proof -
  let ?keep = "map (\<lambda>c. c \<notin> set ls) (columns df)"
  from assms(2) have df': "df' = df\<lparr>columns := select ?keep (columns df), rows := map (select ?keep) (rows df)\<rparr>"
    by (auto simp: drop_columns_def Let_def split: if_splits)
  show c: "columns df' = filter (\<lambda>c. c \<notin> set ls) (columns df)"
    using df' by (simp add: select_filter)
  show "index df' = index df" "length (rows df') = length (rows df)" using df' by simp_all
  have len: "\<And>r. r \<in> set (rows df) \<Longrightarrow> length r = length (columns df)"
    using assms(1) by (simp add: rectangular_def list_all_iff)
  have "\<And>r. r \<in> set (rows df) \<Longrightarrow> length (select ?keep r) = length (filter id ?keep)"
    using len by (simp add: length_select)
  moreover have "length (select ?keep (columns df)) = length (filter id ?keep)"
    by (simp add: length_select)
  ultimately show "rectangular df'"
    using assms(1) df' by (simp add: rectangular_def list_all_iff)
  show "getitem df' l = getitem df l" if "l \<notin> set ls"
  proof (cases "get_loc l (columns df)")
    case None
    then have "l \<notin> set (columns df')" using c by (simp add: get_loc_None)
    then have "get_loc l (columns df') = None" by (simp add: get_loc_None)
    with None show ?thesis by (simp add: getitem_def)
  next
    case (Some j)
    have ex: "\<exists>j'. get_loc l (columns df') = Some j'"
      using c Some get_loc_None [of l "columns df'"] get_loc_None [of l "columns df"] that
      by (cases "get_loc l (columns df')") auto
    then obtain j' where j': "get_loc l (columns df') = Some j'" by blast
    have "select ?keep r ! j' = r ! j" if "r \<in> set (rows df)" for r
      using get_loc_select [OF len [OF that] Some, of "\<lambda>c. c \<notin> set ls"] \<open>l \<notin> set ls\<close> j' df'
      by simp
    then have "map (\<lambda>r. r ! j') (map (select ?keep) (rows df)) = map (\<lambda>r. r ! j) (rows df)"
      by simp
    with Some j' df' show ?thesis by (simp add: getitem_def)
  qed
qed

lemma analyze_store: "\<exists>hs. snd (analyze c self h) = h @ hs"
  by (simp add: analyze_def Let_def split: sum.splits)

lemma index_drop_duplicates_distinct:
  "distinct (index df) \<Longrightarrow> distinct (index (drop_duplicates df))"
  by (simp add: drop_duplicates_def Let_def distinct_select)

lemma raw_table_distinct_index: "raw_table df \<Longrightarrow> distinct (index df)"
  by (simp add: raw_table_def distinct_map inj_on_def)

lemma distinct_map_hd: "distinct (map hd rs) \<Longrightarrow> distinct rs"
  by (simp add: distinct_map)

lemma renamed_away:
  assumes "m (Name a) \<noteq> None" "\<And>l. m l \<noteq> Some (Name a)"
  shows "Name a \<notin> set (columns (rename m df))"
proof
  assume "Name a \<in> set (columns (rename m df))"
  then obtain c where c: "(case m c of None \<Rightarrow> c | Some l' \<Rightarrow> l') = Name a"
    by (auto simp: rename_def)
  show False
  proof (cases "m c")
    case None with c assms(1) show False by simp
  next
    case (Some l') with c assms(2) [of c] show False by simp
  qed
qed

lemma reset_index_columns:
  "reset_index df = Inr df' \<Longrightarrow>
     set (columns df') \<subseteq> {Name ''index'', Name ''level_0''} \<union> set (columns df)"
  by (auto simp: reset_index_def Let_def split: if_splits)

text \<open>The two transforms on the example tables.\<close>

lemma raw_data_fresh: "raw_data fresh_preprocessor = 0"
  by (simp add: fresh_preprocessor_def)

lemma raw_table_toxic: "raw_table toxic_table"
  by (simp add: raw_table_def toxic_table_def)

lemma raw_table_news: "raw_table news_table"
  by (simp add: raw_table_def news_table_def)

lemma lab7_example:
  "lab7_transform fresh_preprocessor [toxic_table] =
     (Inr (), fresh_preprocessor\<lparr>data := Some 1\<rparr>,
      [toxic_table,
       \<lparr>columns = [Name ''index'', Member SOURCE, Member TARGET], index = [0, 1],
        rows = [[Num 0, Str ''a'', Num 1], [Num 1, Str ''b'', Num 0]]\<rparr>])"
  by (simp add: lab7_transform_def copy_def rename_def drop_duplicates_def duplicated_def
      select_def getitem_def setitem_def reset_index_def toxic_table_def fresh_preprocessor_def
      Let_def)

lemma lab8_example:
  "lab8_transform fresh_preprocessor [news_table] =
     (Inr (), fresh_preprocessor\<lparr>data := Some 1\<rparr>,
      [news_table,
       \<lparr>columns = [Name ''index'', Member SOURCE, Member TARGET], index = [0, 1],
        rows = [[Num 0, Str ''text'', Str ''sum''], [Num 1, Str ''text'', Str ''sum'']]\<rparr>])"
  by (simp add: lab8_transform_def copy_def rename_def drop_columns_def
      select_def reset_index_def news_table_def fresh_preprocessor_def Let_def)

section \<open>The raw table is not modified\<close>

text \<open>
  C8. Whatever the outcome, \<^verbatim>\<open>transform\<close> and \<^verbatim>\<open>analyze\<close> (both labs) leave the table
  that \<^verbatim>\<open>_raw_data\<close> refers to as it was, and \<^verbatim>\<open>_raw_data\<close> still refers to it:
  \<^verbatim>\<open>transform\<close> works on a newly allocated copy, \<^verbatim>\<open>analyze\<close> on newly allocated tables.
\<close>

theorem raw_data_unchanged:
  assumes "raw_data self < length h"
  shows "snd (snd (lab7_transform self h)) ! raw_data self = h ! raw_data self \<and>
         raw_data (fst (snd (lab7_transform self h))) = raw_data self \<and>
         snd (snd (lab8_transform self h)) ! raw_data self = h ! raw_data self \<and>
         raw_data (fst (snd (lab8_transform self h))) = raw_data self \<and>
         snd (lab7_analyze self h) ! raw_data self = h ! raw_data self \<and>
         snd (lab8_analyze self h) ! raw_data self = h ! raw_data self"
proof -
  obtain r7 s7 h7 where t7: "lab7_transform self h = (r7, s7, h7)"
    by (cases "lab7_transform self h") auto
  obtain r8 s8 h8 where t8: "lab8_transform self h = (r8, s8, h8)"
    by (cases "lab8_transform self h") auto
  have "h7 ! raw_data self = h ! raw_data self" "raw_data s7 = raw_data self"
    using lab7_transform_cases [OF t7] assms by (auto simp: nth_append)
  moreover have "h8 ! raw_data self = h ! raw_data self" "raw_data s8 = raw_data self"
    using lab8_transform_cases [OF t8] assms by (auto simp: nth_append)
  moreover have "snd (lab7_analyze self h) ! raw_data self = h ! raw_data self"
    using analyze_store [of "Name ''neutral''" self h] assms
    by (auto simp: lab7_analyze_def nth_append)
  moreover have "snd (lab8_analyze self h) ! raw_data self = h ! raw_data self"
    using analyze_store [of "Name ''article_content''" self h] assms
    by (auto simp: lab8_analyze_def nth_append)
  ultimately show ?thesis using t7 t8 by simp
qed

theorem raw_data_unchanged_witness:
  "snd (snd (lab7_transform fresh_preprocessor [toxic_table])) ! 0 = toxic_table \<and>
   snd (snd (lab8_transform fresh_preprocessor [news_table])) ! 0 = news_table \<and>
   snd (lab7_analyze fresh_preprocessor [toxic_table]) ! 0 = toxic_table \<and>
   snd (lab8_analyze fresh_preprocessor [news_table]) ! 0 = news_table"
  using raw_data_unchanged [of fresh_preprocessor "[toxic_table]"]
    raw_data_unchanged [of fresh_preprocessor "[news_table]"]
  by (simp add: fresh_preprocessor_def)

section \<open>Duplicate rows\<close>

text \<open>
  C2 as stated fails for lab 8, whose \<^verbatim>\<open>transform\<close> has no duplicate removal: on a table
  with two equal rows it succeeds and keeps both.
\<close>

theorem lab8_keeps_duplicates:
  "fst (lab8_transform fresh_preprocessor [news_table]) = Inr () \<and>
   length (rows (data_of (fst (snd (lab8_transform fresh_preprocessor [news_table])))
                         (snd (snd (lab8_transform fresh_preprocessor [news_table]))))) = 2 \<and>
   card (set (map (map hash_key) (rows news_table))) = 1"
  by (simp add: lab8_example data_of_def) (simp add: news_table_def)

text \<open>
  C2, amended. For every raw table: after the lab 7 \<^verbatim>\<open>transform\<close> the table has as many
  rows as the raw table has distinct rows, and when \<^verbatim>\<open>transform\<close> returns normally no two
  of its rows are equal; after the lab 8 \<^verbatim>\<open>transform\<close> the table has as many rows as the
  raw table (nothing is dropped).
\<close>

theorem transform_row_count:
  assumes "raw_table (h7 ! raw_data self7)" "lab7_transform self7 h7 = (r7, self7', h7')"
    and "raw_table (h8 ! raw_data self8)" "lab8_transform self8 h8 = (r8, self8', h8')"
  shows "length (rows (data_of self7' h7')) =
           card (set (map (map hash_key) (rows (h7 ! raw_data self7)))) \<and>
         (r7 = Inr () \<longrightarrow> distinct (rows (data_of self7' h7'))) \<and>
         length (rows (data_of self8' h8')) = length (rows (h8 ! raw_data self8))"
proof -
  let ?raw = "h7 ! raw_data self7"
  let ?df3 = "drop_duplicates (rename lab7_names ?raw)"
  have rect3: "rectangular ?df3"
    using assms(1) by (simp add: raw_table_rectangular rectangular_rename rectangular_drop_duplicates)
  have len3: "length (rows ?df3) = card (set (map (map hash_key) (rows ?raw)))"
    by (simp only: rows_drop_duplicates_length) (simp add: rename_def)
  have idx3: "distinct (index ?df3)"
    using raw_table_distinct_index [OF assms(1)]
    by (intro index_drop_duplicates_distinct) (simp add: rename_def)
  from lab7_transform_cases [OF assms(2)]
  obtain out where out: "h7' = h7 @ [out]" "self7' = self7\<lparr>data := Some (length h7)\<rparr>"
    and cases7: "(\<exists>e. r7 = Inl e \<and> out = ?df3) \<or>
      (\<exists>col df4. getitem ?df3 (Member TARGET) = Inr col \<and>
         setitem (Member TARGET) (map is_true col) ?df3 = Inr df4 \<and>
         ((\<exists>e. r7 = Inl e \<and> out = df4) \<or> (r7 = Inr () \<and> reset_index df4 = Inr out)))"
    by (auto simp: Let_def)
  have d7: "data_of self7' h7' = out" using out by (simp add: data_of_def)
  from cases7 have "length (rows out) = length (rows ?df3) \<and> (r7 = Inr () \<longrightarrow> distinct (rows out))"
  proof (elim disjE exE conjE)
    fix e assume "r7 = Inl e" "out = ?df3"
    then show ?thesis by simp
  next
    fix col df4 e
    assume g: "getitem ?df3 (Member TARGET) = Inr col"
      and s: "setitem (Member TARGET) (map is_true col) ?df3 = Inr df4"
      and "r7 = Inl e" "out = df4"
    with setitem_existing(6) [OF rect3 s getitem_Inr_member [OF g]] show ?thesis by simp
  next
    fix col df4
    assume g: "getitem ?df3 (Member TARGET) = Inr col"
      and s: "setitem (Member TARGET) (map is_true col) ?df3 = Inr df4"
      and r: "reset_index df4 = Inr out"
    note p4 = setitem_existing [OF rect3 s getitem_Inr_member [OF g]]
    have "distinct (map hd (rows out))"
      using reset_index_props(5) [OF p4(3) r] p4(2) idx3 by (simp add: distinct_map inj_on_def)
    then have "distinct (rows out)" by (rule distinct_map_hd)
    with reset_index_props(1) [OF p4(3) r] p4(6) show ?thesis by simp
  qed
  with len3 d7 have lab7: "length (rows (data_of self7' h7')) =
           card (set (map (map hash_key) (rows ?raw))) \<and>
         (r7 = Inr () \<longrightarrow> distinct (rows (data_of self7' h7')))"
    by simp
  let ?raw8 = "h8 ! raw_data self8"
  have rect8: "rectangular ?raw8" using assms(3) by (rule raw_table_rectangular)
  from lab8_transform_cases [OF assms(4)]
  obtain out8 where out8: "h8' = h8 @ [out8]" "self8' = self8\<lparr>data := Some (length h8)\<rparr>"
    and cases8: "out8 = ?raw8 \<or>
        (\<exists>df. drop_columns lab8_dropped ?raw8 = Inr df \<and>
           (out8 = rename lab8_names df \<or> reset_index (rename lab8_names df) = Inr out8))"
    by auto
  have d8: "data_of self8' h8' = out8" using out8 by (simp add: data_of_def)
  from cases8 have "length (rows out8) = length (rows ?raw8)"
  proof (elim disjE exE conjE)
    assume "out8 = ?raw8" then show ?thesis by simp
  next
    fix df assume "drop_columns lab8_dropped ?raw8 = Inr df" "out8 = rename lab8_names df"
    with drop_columns_props(3) [OF rect8, of lab8_dropped df] show ?thesis
      by (simp add: rename_def)
  next
    fix df assume dc: "drop_columns lab8_dropped ?raw8 = Inr df"
      and r: "reset_index (rename lab8_names df) = Inr out8"
    have "rectangular (rename lab8_names df)"
      using drop_columns_props(4) [OF rect8 dc] by (rule rectangular_rename)
    from reset_index_props(1) [OF this r] drop_columns_props(3) [OF rect8 dc]
    show ?thesis by (simp add: rename_def)
  qed
  with lab7 d8 show ?thesis by simp
qed

theorem transform_row_count_witness:
  "raw_table toxic_table \<and> raw_table news_table \<and>
   length (rows (data_of (fresh_preprocessor\<lparr>data := Some 1\<rparr>)
      [toxic_table,
       \<lparr>columns = [Name ''index'', Member SOURCE, Member TARGET], index = [0, 1],
        rows = [[Num 0, Str ''a'', Num 1], [Num 1, Str ''b'', Num 0]]\<rparr>])) =
     card (set (map (map hash_key) (rows toxic_table))) \<and>
   length (rows (data_of (fresh_preprocessor\<lparr>data := Some 1\<rparr>)
      [news_table,
       \<lparr>columns = [Name ''index'', Member SOURCE, Member TARGET], index = [0, 1],
        rows = [[Num 0, Str ''text'', Str ''sum''], [Num 1, Str ''text'', Str ''sum'']]\<rparr>])) =
     length (rows news_table)"
proof -
  have a: "raw_table ([toxic_table] ! raw_data fresh_preprocessor)"
    by (simp add: fresh_preprocessor_def raw_table_toxic)
  have b: "raw_table ([news_table] ! raw_data fresh_preprocessor)"
    by (simp add: fresh_preprocessor_def raw_table_news)
  from transform_row_count [OF a lab7_example b lab8_example] raw_table_toxic raw_table_news
  show ?thesis by (simp add: fresh_preprocessor_def)
qed

section \<open>The target column of lab 7\<close>

text \<open>
  C9. For a raw table with a \<^verbatim>\<open>toxic\<close> column, let \<open>toxic\<close> be the values of that column
  in the rows that survive the duplicate removal. After the lab 7 \<^verbatim>\<open>transform\<close> the target
  column has one value per such row, each value is the integer 0 or 1, and it is 1 exactly
  when the row's \<^verbatim>\<open>toxic\<close> value was the boolean \<^verbatim>\<open>True\<close>.
\<close>

theorem lab7_target_binary:
  assumes "raw_table (h ! raw_data self)"
    and "getitem (drop_duplicates (h ! raw_data self)) (Name ''toxic'') = Inr toxic"
    and "lab7_transform self h = (r, self', h')"
  shows "\<exists>target. getitem (data_of self' h') (Member TARGET) = Inr target \<and>
     length target = length toxic \<and>
     (\<forall>i<length target. (target ! i = Num 0 \<or> target ! i = Num 1) \<and>
        (target ! i = Num 1 \<longleftrightarrow> toxic ! i = Bool True))"
proof -
  let ?raw = "h ! raw_data self"
  let ?df3 = "drop_duplicates (rename lab7_names ?raw)"
  have rect3: "rectangular ?df3"
    using assms(1) by (simp add: raw_table_rectangular rectangular_rename rectangular_drop_duplicates)
  have "only_names (columns (drop_duplicates ?raw))"
    using assms(1) by (simp add: raw_table_names)
  then have g3: "getitem ?df3 (Member TARGET) = Inr toxic"
    using assms(2) by (simp only: drop_duplicates_rename getitem_rename_target)
  then have mem3: "Member TARGET \<in> set (columns ?df3)" by (rule getitem_Inr_member)
  from lab7_transform_cases [OF assms(3)] g3
  obtain out df4 where out: "h' = h @ [out]" "self' = self\<lparr>data := Some (length h)\<rparr>"
    and s: "setitem (Member TARGET) (map is_true toxic) ?df3 = Inr df4"
    and fin: "out = df4 \<or> reset_index df4 = Inr out"
    by (auto simp: Let_def)
  have d: "data_of self' h' = out" using out by (simp add: data_of_def)
  have g4: "getitem df4 (Member TARGET) = Inr (map is_true toxic)"
    and rect4: "rectangular df4" and c4: "columns df4 = columns ?df3"
    using setitem_existing [OF rect3 s mem3] by simp_all
  have "getitem out (Member TARGET) = Inr (map is_true toxic)"
    using fin
  proof
    assume "out = df4" with g4 show ?thesis by simp
  next
    assume "reset_index df4 = Inr out"
    from reset_index_props(3) [OF rect4 this, of "Member TARGET"] mem3 c4 g4
    show ?thesis by simp
  qed
  with d show ?thesis by simp
qed

theorem lab7_target_binary_witness:
  "raw_table toxic_table \<and>
   getitem (drop_duplicates toxic_table) (Name ''toxic'') = Inr [Bool True, Bool False] \<and>
   (\<exists>target. getitem (data_of (fresh_preprocessor\<lparr>data := Some 1\<rparr>)
      [toxic_table,
       \<lparr>columns = [Name ''index'', Member SOURCE, Member TARGET], index = [0, 1],
        rows = [[Num 0, Str ''a'', Num 1], [Num 1, Str ''b'', Num 0]]\<rparr>]) (Member TARGET) = Inr target \<and>
     length target = length [Bool True, Bool False] \<and>
     (\<forall>i<length target. (target ! i = Num 0 \<or> target ! i = Num 1) \<and>
        (target ! i = Num 1 \<longleftrightarrow> [Bool True, Bool False] ! i = Bool True)))"
proof -
  have a: "raw_table ([toxic_table] ! raw_data fresh_preprocessor)"
    by (simp add: fresh_preprocessor_def raw_table_toxic)
  have b: "getitem (drop_duplicates toxic_table) (Name ''toxic'') = Inr [Bool True, Bool False]"
    by (simp add: getitem_def drop_duplicates_def duplicated_def select_def toxic_table_def)
  then have b': "getitem (drop_duplicates ([toxic_table] ! raw_data fresh_preprocessor))
      (Name ''toxic'') = Inr [Bool True, Bool False]"
    by (simp add: fresh_preprocessor_def)
  from lab7_target_binary [OF a b' lab7_example] raw_table_toxic b
  show ?thesis by blast
qed

section \<open>Renamed columns\<close>

text \<open>
  C3. For a raw table that has the columns the lab names (\<^verbatim>\<open>neutral\<close> and \<^verbatim>\<open>toxic\<close> in
  lab 7; \<^verbatim>\<open>title\<close>, \<^verbatim>\<open>date\<close>, \<^verbatim>\<open>url\<close>, \<^verbatim>\<open>article_content\<close> and \<^verbatim>\<open>summary\<close> in lab 8), the
  table after \<^verbatim>\<open>transform\<close> has a source column and a target column, the dataset's
  names for them are gone, and the two columns hold what the dataset's columns held: the source column of lab 7 is the \<^verbatim>\<open>neutral\<close> column of the
  rows kept, the source and target columns of lab 8 are the \<^verbatim>\<open>article_content\<close> and
  \<^verbatim>\<open>summary\<close> columns.
\<close>

theorem transform_renames_columns:
  assumes "raw_table (h7 ! raw_data self7)"
    and "Name ''neutral'' \<in> set (columns (h7 ! raw_data self7))"
    and "Name ''toxic'' \<in> set (columns (h7 ! raw_data self7))"
    and "lab7_transform self7 h7 = (r7, self7', h7')"
    and "raw_table (h8 ! raw_data self8)"
    and "list_all (\<lambda>l. l \<in> set (columns (h8 ! raw_data self8)))
           [Name ''title'', Name ''date'', Name ''url'', Name ''article_content'', Name ''summary'']"
    and "lab8_transform self8 h8 = (r8, self8', h8')"
  shows "Member SOURCE \<in> set (columns (data_of self7' h7')) \<and>
         Member TARGET \<in> set (columns (data_of self7' h7')) \<and>
         Name ''neutral'' \<notin> set (columns (data_of self7' h7')) \<and>
         Name ''toxic'' \<notin> set (columns (data_of self7' h7')) \<and>
         getitem (data_of self7' h7') (Member SOURCE) =
           getitem (drop_duplicates (h7 ! raw_data self7)) (Name ''neutral'') \<and>
         Member SOURCE \<in> set (columns (data_of self8' h8')) \<and>
         Member TARGET \<in> set (columns (data_of self8' h8')) \<and>
         Name ''article_content'' \<notin> set (columns (data_of self8' h8')) \<and>
         Name ''summary'' \<notin> set (columns (data_of self8' h8')) \<and>
         getitem (data_of self8' h8') (Member SOURCE) =
           getitem (h8 ! raw_data self8) (Name ''article_content'') \<and>
         getitem (data_of self8' h8') (Member TARGET) =
           getitem (h8 ! raw_data self8) (Name ''summary'')"
proof -
  let ?raw = "h7 ! raw_data self7"
  let ?dd = "drop_duplicates ?raw"
  let ?df3 = "drop_duplicates (rename lab7_names ?raw)"
  have df3: "?df3 = rename lab7_names ?dd" by (rule drop_duplicates_rename)
  have names: "only_names (columns ?dd)" using assms(1) by (simp add: raw_table_names)
  have rect3: "rectangular ?df3"
    using assms(1) by (simp add: raw_table_rectangular rectangular_rename rectangular_drop_duplicates)
  have src3: "getitem ?df3 (Member SOURCE) = getitem ?dd (Name ''neutral'')"
    unfolding df3 using names by (rule getitem_rename_source)
  have tgt3: "getitem ?df3 (Member TARGET) = getitem ?dd (Name ''toxic'')"
    unfolding df3 using names by (rule getitem_rename_target)
  have msrc3: "Member SOURCE \<in> set (columns ?df3)"
    using src3 member_getitem [of "Name ''neutral''" ?dd] assms(2)
      getitem_Inr_member [of ?df3 "Member SOURCE"] by auto
  have mtgt3: "Member TARGET \<in> set (columns ?df3)"
    using tgt3 member_getitem [of "Name ''toxic''" ?dd] assms(3)
      getitem_Inr_member [of ?df3 "Member TARGET"] by auto
  then obtain col where col: "getitem ?df3 (Member TARGET) = Inr col"
    using member_getitem by blast
  from lab7_transform_cases [OF assms(4)] col
  obtain out df4 where out: "h7' = h7 @ [out]" "self7' = self7\<lparr>data := Some (length h7)\<rparr>"
    and s: "setitem (Member TARGET) (map is_true col) ?df3 = Inr df4"
    and fin: "out = df4 \<or> reset_index df4 = Inr out"
    by (auto simp: Let_def)
  have d7: "data_of self7' h7' = out" using out by (simp add: data_of_def)
  note p4 = setitem_existing [OF rect3 s mtgt3]
  have src4: "getitem df4 (Member SOURCE) = getitem ?dd (Name ''neutral'')"
    using p4(5) [of "Member SOURCE"] src3 by simp
  have old3: "Name ''neutral'' \<notin> set (columns ?df3)" "Name ''toxic'' \<notin> set (columns ?df3)"
    unfolding df3 by (rule renamed_away; simp)+
  have lab7: "Member SOURCE \<in> set (columns out) \<and> Member TARGET \<in> set (columns out) \<and>
      Name ''neutral'' \<notin> set (columns out) \<and> Name ''toxic'' \<notin> set (columns out) \<and>
      getitem out (Member SOURCE) = getitem ?dd (Name ''neutral'')"
    using fin
  proof
    assume "out = df4" with p4(1) msrc3 mtgt3 src4 old3 show ?thesis by simp
  next
    assume r: "reset_index df4 = Inr out"
    from reset_index_props(2) [OF p4(3) r] p4(1) msrc3 mtgt3
    have "Member SOURCE \<in> set (columns out) \<and> Member TARGET \<in> set (columns out)" by auto
    moreover from reset_index_columns [OF r] p4(1) old3
    have "Name ''neutral'' \<notin> set (columns out) \<and> Name ''toxic'' \<notin> set (columns out)" by auto
    moreover from reset_index_props(3) [OF p4(3) r, of "Member SOURCE"] p4(1) msrc3 src4
    have "getitem out (Member SOURCE) = getitem ?dd (Name ''neutral'')" by simp
    ultimately show ?thesis by simp
  qed
  let ?raw8 = "h8 ! raw_data self8"
  have rect8: "rectangular ?raw8" using assms(5) by (rule raw_table_rectangular)
  have "drop_columns lab8_dropped ?raw8 \<noteq> Inl KeyError"
    using assms(6) by (simp add: drop_columns_def Let_def)
  moreover have "\<And>e. drop_columns lab8_dropped ?raw8 = Inl e \<Longrightarrow> e = KeyError"
    by (simp add: drop_columns_def Let_def split: if_splits)
  ultimately obtain df where dc: "drop_columns lab8_dropped ?raw8 = Inr df"
    by (cases "drop_columns lab8_dropped ?raw8") auto
  note pd = drop_columns_props [OF rect8 dc]
  let ?rn = "rename lab8_names df"
  have names8: "only_names (columns df)"
    using assms(5) pd(1) by (simp add: raw_table_def list_all_iff)
  have rectrn: "rectangular ?rn" using pd(4) by (rule rectangular_rename)
  have srcrn: "getitem ?rn (Member SOURCE) = getitem ?raw8 (Name ''article_content'')"
    using getitem_rename [OF names8, of lab8_names "''article_content''" SOURCE]
      pd(5) [of "Name ''article_content''"] by simp
  have tgtrn: "getitem ?rn (Member TARGET) = getitem ?raw8 (Name ''summary'')"
    using getitem_rename [OF names8, of lab8_names "''summary''" TARGET]
      pd(5) [of "Name ''summary''"] by simp
  have msrc: "Member SOURCE \<in> set (columns ?rn)"
    using srcrn member_getitem [of "Name ''article_content''" ?raw8] assms(6)
      getitem_Inr_member [of ?rn "Member SOURCE"] by auto
  have mtgt: "Member TARGET \<in> set (columns ?rn)"
    using tgtrn member_getitem [of "Name ''summary''" ?raw8] assms(6)
      getitem_Inr_member [of ?rn "Member TARGET"] by auto
  from lab8_transform_cases [OF assms(7)] dc
  obtain out8 where out8: "h8' = h8 @ [out8]" "self8' = self8\<lparr>data := Some (length h8)\<rparr>"
    and fin8: "out8 = ?rn \<or> reset_index ?rn = Inr out8"
    by auto
  have d8: "data_of self8' h8' = out8" using out8 by (simp add: data_of_def)
  have old8: "Name ''article_content'' \<notin> set (columns ?rn)" "Name ''summary'' \<notin> set (columns ?rn)"
    by (rule renamed_away; simp)+
  have lab8: "Member SOURCE \<in> set (columns out8) \<and> Member TARGET \<in> set (columns out8) \<and>
      Name ''article_content'' \<notin> set (columns out8) \<and> Name ''summary'' \<notin> set (columns out8) \<and>
      getitem out8 (Member SOURCE) = getitem ?raw8 (Name ''article_content'') \<and>
      getitem out8 (Member TARGET) = getitem ?raw8 (Name ''summary'')"
    using fin8
  proof
    assume "out8 = ?rn" with msrc mtgt srcrn tgtrn old8 show ?thesis by simp
  next
    assume r: "reset_index ?rn = Inr out8"
    from reset_index_props(2) [OF rectrn r] msrc mtgt
    have "Member SOURCE \<in> set (columns out8) \<and> Member TARGET \<in> set (columns out8)" by auto
    moreover from reset_index_columns [OF r] old8
    have "Name ''article_content'' \<notin> set (columns out8) \<and> Name ''summary'' \<notin> set (columns out8)"
      by auto
    moreover from reset_index_props(3) [OF rectrn r, of "Member SOURCE"] msrc srcrn
    have "getitem out8 (Member SOURCE) = getitem ?raw8 (Name ''article_content'')" by simp
    moreover from reset_index_props(3) [OF rectrn r, of "Member TARGET"] mtgt tgtrn
    have "getitem out8 (Member TARGET) = getitem ?raw8 (Name ''summary'')" by simp
    ultimately show ?thesis by simp
  qed
  from lab7 lab8 d7 d8 show ?thesis by simp
qed

theorem transform_renames_columns_witness:
  "raw_table toxic_table \<and> raw_table news_table \<and>
   Member SOURCE \<in> set (columns (data_of (fst (snd (lab7_transform fresh_preprocessor [toxic_table])))
      (snd (snd (lab7_transform fresh_preprocessor [toxic_table]))))) \<and>
   Member TARGET \<in> set (columns (data_of (fst (snd (lab7_transform fresh_preprocessor [toxic_table])))
      (snd (snd (lab7_transform fresh_preprocessor [toxic_table]))))) \<and>
   getitem (data_of (fst (snd (lab7_transform fresh_preprocessor [toxic_table])))
      (snd (snd (lab7_transform fresh_preprocessor [toxic_table])))) (Member SOURCE) =
     Inr [Str ''a'', Str ''b''] \<and>
   getitem (data_of (fst (snd (lab8_transform fresh_preprocessor [news_table])))
      (snd (snd (lab8_transform fresh_preprocessor [news_table])))) (Member SOURCE) =
     Inr [Str ''text'', Str ''text''] \<and>
   getitem (data_of (fst (snd (lab8_transform fresh_preprocessor [news_table])))
      (snd (snd (lab8_transform fresh_preprocessor [news_table])))) (Member TARGET) =
     Inr [Str ''sum'', Str ''sum'']"
proof -
  have a: "raw_table ([toxic_table] ! raw_data fresh_preprocessor)"
    by (simp add: fresh_preprocessor_def raw_table_toxic)
  have a1: "Name ''neutral'' \<in> set (columns ([toxic_table] ! raw_data fresh_preprocessor))"
    and a2: "Name ''toxic'' \<in> set (columns ([toxic_table] ! raw_data fresh_preprocessor))"
    by (simp_all add: fresh_preprocessor_def toxic_table_def)
  have b: "raw_table ([news_table] ! raw_data fresh_preprocessor)"
    by (simp add: fresh_preprocessor_def raw_table_news)
  have b1: "list_all (\<lambda>l. l \<in> set (columns ([news_table] ! raw_data fresh_preprocessor)))
      [Name ''title'', Name ''date'', Name ''url'', Name ''article_content'', Name ''summary'']"
    by (simp add: fresh_preprocessor_def news_table_def)
  have c: "getitem (drop_duplicates toxic_table) (Name ''neutral'') = Inr [Str ''a'', Str ''b'']"
    by (simp add: getitem_def drop_duplicates_def duplicated_def select_def toxic_table_def)
  have d: "getitem news_table (Name ''article_content'') = Inr [Str ''text'', Str ''text'']"
    "getitem news_table (Name ''summary'') = Inr [Str ''sum'', Str ''sum'']"
    by (simp_all add: getitem_def news_table_def)
  from transform_renames_columns [OF a a1 a2 lab7_example b b1 lab8_example]
    raw_table_toxic raw_table_news c d
  show ?thesis by (simp add: lab7_example lab8_example raw_data_fresh)
qed

section \<open>Properties of the loops and of batching\<close>


lemma for_each_first_error:
  "for_each f xs = Inr ys \<Longrightarrow> f x = Inl e \<Longrightarrow> for_each f (xs @ x # zs) = Inl e"
  by (induction xs arbitrary: ys) (auto split: sum.splits)

lemma batches_Nil [simp]: "batches n [] = []"
  by (simp add: batches.simps)

lemma batches_zero [simp]: "batches 0 xs = []"
  by (simp add: batches.simps)

lemma batches_Cons: "0 < n \<Longrightarrow> xs \<noteq> [] \<Longrightarrow> batches n xs = take n xs # batches n (drop n xs)"
  by (subst batches.simps) simp









lemma for_each_comp: "for_each f (map g xs) = for_each (\<lambda>x. f (g x)) xs"
  by (induction xs) (simp_all split: sum.splits)




lemma and_then_Inr: "and_then (Inr v) k = k v"
  by (simp add: and_then_def)

lemma and_then_assoc:
  "and_then (and_then r f) g = and_then r (\<lambda>v. and_then (f v) g)"
  by (cases r) (simp_all add: and_then_def)

lemma lab7_run_loop_append:
  "lab7_run_loop load t (xs @ ys) results =
     and_then (lab7_run_loop load t xs results) (lab7_run_loop load t ys)"
  by (induction xs arbitrary: results) (simp_all add: and_then_assoc and_then_Inr)

lemma lab8_run_loop_append:
  "lab8_run_loop load t (xs @ ys) results =
     and_then (lab8_run_loop load t xs results) (lab8_run_loop load t ys)"
  by (induction xs arbitrary: results) (simp_all add: and_then_assoc and_then_Inr)

lemma lab8_transform_eq:
  "lab8_transform self h =
     (case drop_columns lab8_dropped (h ! raw_data self) of
        Inl e \<Rightarrow> (Inl e, self\<lparr>data := Some (length h)\<rparr>, h @ [h ! raw_data self])
      | Inr df \<Rightarrow>
          (case reset_index (rename lab8_names df) of
             Inl e \<Rightarrow> (Inl e, self\<lparr>data := Some (length h)\<rparr>, h @ [rename lab8_names df])
           | Inr out \<Rightarrow> (Inr (), self\<lparr>data := Some (length h)\<rparr>, h @ [out])))"
  by (simp add: lab8_transform_def copy_def Let_def split: sum.splits)


lemma source_example: "getitem example_dataset (Member SOURCE) = Inr [Str ''a'', Str ''b'', Str ''c'']"
  by (simp add: getitem_def example_dataset_def)

lemma target_example: "getitem example_dataset (Member TARGET) = Inr [Num 1, Num 0, Num 1]"
  by (simp add: getitem_def example_dataset_def)

lemma lab7_infer_example:
  "lab7_infer_dataset example_p7 =
     Inr \<lparr>columns = [Name ''target'', Name ''prediction''], index = [0, 1, 2],
          rows = [[Num 1, Str ''1''], [Num 0, Str ''0''], [Num 1, Str ''0'']]\<rparr>"
  by (simp add: lab7_infer_dataset_def example_p7_def DataLoader_def batches_Cons
      lab7_getitem_def lab7_infer_batch_def and_then_def default_collate_def classifier_def
      DataFrame_of_def getitem_def example_dataset_def str_int_def)

lemma lab8_infer_example:
  "lab8_infer_dataset example_p8 =
     Inr \<lparr>columns = [Name ''target'', Name ''prediction''], index = [0, 1, 2],
          rows = [[Num 1, Str ''a''], [Num 0, Str ''b''], [Num 1, Str ''c'']]\<rparr>"
  by (simp add: lab8_infer_dataset_def example_p8_def DataLoader_def batches_Cons
      lab8_getitem_def lab8_infer_batch_def and_then_def default_collate_def summarizer_def
      DataFrame_of_def getitem_def example_dataset_def)

section \<open>The table written by inference\<close>

text \<open>
  C6. Whenever \<^verbatim>\<open>infer_dataset\<close> returns a table (either lab), the table has exactly the
  two columns \<^verbatim>\<open>target\<close> and \<^verbatim>\<open>prediction\<close>, in this order, and every row has two cells.
\<close>

theorem infer_dataset_columns:
  "(lab7_infer_dataset p7 = Inr out7 \<longrightarrow>
      columns out7 = [Name ''target'', Name ''prediction''] \<and>
      list_all (\<lambda>r. length r = 2) (rows out7)) \<and>
   (lab8_infer_dataset p8 = Inr out8 \<longrightarrow>
      columns out8 = [Name ''target'', Name ''prediction''] \<and>
      list_all (\<lambda>r. length r = 2) (rows out8))"
  by (auto simp: lab7_infer_dataset_def lab8_infer_dataset_def and_then_def DataFrame_of_def
      list_all_iff split: if_splits sum.splits dest: set_zip_leftD)

theorem infer_dataset_columns_witness:
  "columns \<lparr>columns = [Name ''target'', Name ''prediction''], index = [0, 1, 2],
          rows = [[Num 1, Str ''1''], [Num 0, Str ''0''], [Num 1, Str ''0'']]\<rparr> =
     [Name ''target'', Name ''prediction''] \<and>
   lab7_infer_dataset example_p7 =
     Inr \<lparr>columns = [Name ''target'', Name ''prediction''], index = [0, 1, 2],
          rows = [[Num 1, Str ''1''], [Num 0, Str ''0''], [Num 1, Str ''0'']]\<rparr> \<and>
   lab8_infer_dataset example_p8 =
     Inr \<lparr>columns = [Name ''target'', Name ''prediction''], index = [0, 1, 2],
          rows = [[Num 1, Str ''a''], [Num 0, Str ''b''], [Num 1, Str ''c'']]\<rparr>"
  using infer_dataset_columns [of example_p7
      "\<lparr>columns = [Name ''target'', Name ''prediction''], index = [0, 1, 2],
          rows = [[Num 1, Str ''1''], [Num 0, Str ''0''], [Num 1, Str ''0'']]\<rparr>"
      example_p8
      "\<lparr>columns = [Name ''target'', Name ''prediction''], index = [0, 1, 2],
          rows = [[Num 1, Str ''a''], [Num 0, Str ''b''], [Num 1, Str ''c'']]\<rparr>"]
    lab7_infer_example lab8_infer_example
  by simp

section \<open>One prediction per row\<close>




section \<open>The arguments of the metric\<close>

text \<open>
  C1. The claim holds for lab 8 and not for lab 7. On a predictions file whose target
  column is \<open>[1, 0]\<close> and whose prediction column is \<open>[0, 0]\<close>, with a metric that
  returns its two arguments, the lab 7 \<^verbatim>\<open>run\<close> hands the target column over as
  \<^verbatim>\<open>predictions\<close> and the prediction column as \<^verbatim>\<open>references\<close>; the lab 8 \<^verbatim>\<open>run\<close> hands
  the prediction column over as \<^verbatim>\<open>predictions\<close> and the target column as \<^verbatim>\<open>references\<close>.
\<close>

theorem lab7_run_swaps_arguments:
  "lab7_run (\<lambda>path. Inr predictions_csv) example_load example_evaluator =
     Inr [''spy'' \<mapsto> ([Num 1, Num 0], [Num 0, Num 0])] \<and>
   lab8_run (\<lambda>path. Inr predictions_csv) example_load example_evaluator =
     Inr [''spy'' \<mapsto> ([Num 0, Num 0], [Num 1, Num 0])] \<and>
   getitem predictions_csv (Name ''target'') = Inr [Num 1, Num 0] \<and>
   getitem predictions_csv (Name ''prediction'') = Inr [Num 0, Num 0]"
  by (simp add: lab7_run_def lab8_run_def and_then_def example_load_def example_evaluator_def
      spy_metric_def getitem_def predictions_csv_def dict_get_def Metrics_ROUGE_value_def)

section \<open>Errors are not caught\<close>

text \<open>Where each operation raises: a raise of a call it makes, or a raise of its own.\<close>

lemma and_then_raises:
  "and_then r k = Inl e \<longleftrightarrow> r = Inl e \<or> (\<exists>v. r = Inr v \<and> k v = Inl e)"
  by (cases r) (simp_all add: and_then_def)

lemma for_each_raises:
  "for_each f xs = Inl e \<longleftrightarrow>
     (\<exists>before x rest. xs = before @ x # rest \<and> (\<forall>y \<in> set before. \<exists>v. f y = Inr v) \<and>
        f x = Inl e)"
proof (induction xs)
  case Nil
  show ?case by simp
next
  case (Cons a xs)
  show ?case
  proof (cases "f a")
    case (Inl e')
    have "(\<exists>before x rest. a # xs = before @ x # rest \<and>
        (\<forall>y \<in> set before. \<exists>v. f y = Inr v) \<and> f x = Inl e) \<longleftrightarrow> e' = e"
    proof
      assume "\<exists>before x rest. a # xs = before @ x # rest \<and>
        (\<forall>y \<in> set before. \<exists>v. f y = Inr v) \<and> f x = Inl e"
      then obtain before x rest where d: "a # xs = before @ x # rest"
        and ok: "\<forall>y \<in> set before. \<exists>v. f y = Inr v" and x: "f x = Inl e"
        by blast
      show "e' = e"
      proof (cases before)
        case Nil with d x Inl show ?thesis by simp
      next
        case (Cons b bs) with d ok Inl show ?thesis by auto
      qed
    next
      assume "e' = e"
      with Inl have "a # xs = [] @ a # xs \<and> (\<forall>y \<in> set []. \<exists>v. f y = Inr v) \<and> f a = Inl e"
        by simp
      then show "\<exists>before x rest. a # xs = before @ x # rest \<and>
        (\<forall>y \<in> set before. \<exists>v. f y = Inr v) \<and> f x = Inl e"
        by blast
    qed
    with Inl show ?thesis by simp
  next
    case (Inr v)
    then have l: "for_each f (a # xs) = Inl e \<longleftrightarrow> for_each f xs = Inl e"
      by (cases "for_each f xs") simp_all
    have r: "(\<exists>before x rest. a # xs = before @ x # rest \<and>
        (\<forall>y \<in> set before. \<exists>v. f y = Inr v) \<and> f x = Inl e) \<longleftrightarrow>
      (\<exists>before x rest. xs = before @ x # rest \<and>
        (\<forall>y \<in> set before. \<exists>v. f y = Inr v) \<and> f x = Inl e)"
    proof
      assume "\<exists>before x rest. a # xs = before @ x # rest \<and>
        (\<forall>y \<in> set before. \<exists>v. f y = Inr v) \<and> f x = Inl e"
      then obtain before x rest where d: "a # xs = before @ x # rest"
        and ok: "\<forall>y \<in> set before. \<exists>v. f y = Inr v" and x: "f x = Inl e"
        by blast
      show "\<exists>before x rest. xs = before @ x # rest \<and>
        (\<forall>y \<in> set before. \<exists>v. f y = Inr v) \<and> f x = Inl e"
      proof (cases before)
        case Nil with d x Inr show ?thesis by simp
      next
        case (Cons b bs)
        with d ok x have "xs = bs @ x # rest \<and> (\<forall>y \<in> set bs. \<exists>v. f y = Inr v) \<and> f x = Inl e"
          by simp
        then show ?thesis by blast
      qed
    next
      assume "\<exists>before x rest. xs = before @ x # rest \<and>
        (\<forall>y \<in> set before. \<exists>v. f y = Inr v) \<and> f x = Inl e"
      then obtain before x rest where d: "xs = before @ x # rest"
        and ok: "\<forall>y \<in> set before. \<exists>v. f y = Inr v" and x: "f x = Inl e"
        by blast
      with Inr have "a # xs = (a # before) @ x # rest \<and>
          (\<forall>y \<in> set (a # before). \<exists>v. f y = Inr v) \<and> f x = Inl e"
        by simp
      then show "\<exists>before x rest. a # xs = before @ x # rest \<and>
        (\<forall>y \<in> set before. \<exists>v. f y = Inr v) \<and> f x = Inl e"
        by blast
    qed
    show ?thesis by (simp only: l r Cons.IH)
  qed
qed

lemma obtain_raises:
  "fst (importer_obtain load_to_pandas imp) = Inl e \<longleftrightarrow>
     load_to_pandas (hf_name imp) = Inl e \<or>
     (load_to_pandas (hf_name imp) = Inr OtherObject \<and> e = TypeError)"
  by (auto simp: importer_obtain_def Let_def split: sum.splits pyobj.splits)

lemma lab7_transform_raises:
  "fst (lab7_transform self h) = Inl e \<longleftrightarrow>
     getitem (drop_duplicates (rename lab7_names (h ! raw_data self))) (Member TARGET) = Inl e \<or>
     (\<exists>col. getitem (drop_duplicates (rename lab7_names (h ! raw_data self))) (Member TARGET) =
          Inr col \<and>
        setitem (Member TARGET) (map is_true col)
          (drop_duplicates (rename lab7_names (h ! raw_data self))) = Inl e) \<or>
     (\<exists>col df. getitem (drop_duplicates (rename lab7_names (h ! raw_data self))) (Member TARGET) =
          Inr col \<and>
        setitem (Member TARGET) (map is_true col)
          (drop_duplicates (rename lab7_names (h ! raw_data self))) = Inr df \<and>
        reset_index df = Inl e)"
  by (simp add: lab7_transform_eq split: sum.splits)

lemma lab8_transform_raises:
  "fst (lab8_transform self h) = Inl e \<longleftrightarrow>
     drop_columns lab8_dropped (h ! raw_data self) = Inl e \<or>
     (\<exists>df. drop_columns lab8_dropped (h ! raw_data self) = Inr df \<and>
        reset_index (rename lab8_names df) = Inl e)"
  by (simp add: lab8_transform_eq split: sum.splits)

lemma analyze_raises:
  "fst (analyze c self h) = Inl e \<longleftrightarrow>
     getitem (h ! raw_data self) c = Inl e \<or>
     (\<exists>col. getitem (h ! raw_data self) c = Inr col \<and> for_each len_ignore_na col = Inl e)"
  by (auto simp: analyze_def and_then_def Let_def split: sum.splits)

lemma lab7_analyze_raises:
  "fst (lab7_analyze self h) = Inl e \<longleftrightarrow>
     getitem (h ! raw_data self) (Name ''neutral'') = Inl e \<or>
     (\<exists>col. getitem (h ! raw_data self) (Name ''neutral'') = Inr col \<and>
        for_each len_ignore_na col = Inl e)"
  unfolding lab7_analyze_def by (rule analyze_raises)

lemma lab8_analyze_raises:
  "fst (lab8_analyze self h) = Inl e \<longleftrightarrow>
     getitem (h ! raw_data self) (Name ''article_content'') = Inl e \<or>
     (\<exists>col. getitem (h ! raw_data self) (Name ''article_content'') = Inr col \<and>
        for_each len_ignore_na col = Inl e)"
  unfolding lab8_analyze_def by (rule analyze_raises)

lemma lab7_getitem_raises:
  "lab7_getitem df i = Inl e \<longleftrightarrow>
     getitem df (Member SOURCE) = Inl e \<or>
     (\<exists>col. getitem df (Member SOURCE) = Inr col \<and> \<not> i < length col \<and> e = IndexError)"
  by (auto simp: lab7_getitem_def and_then_def split: sum.splits)

lemma lab8_getitem_raises:
  "lab8_getitem df i = Inl e \<longleftrightarrow>
     getitem df (Member SOURCE) = Inl e \<or>
     (\<exists>col. getitem df (Member SOURCE) = Inr col \<and> \<not> i < length col \<and> e = IndexError)"
  by (auto simp: lab8_getitem_def and_then_def split: sum.splits)

lemma lab7_infer_batch_raises:
  "lab7_infer_batch p sample_batch = Inl e \<longleftrightarrow>
     (model p = None \<and> e = ValueError) \<or>
     (\<exists>m. model p = Some m \<and>
        ((sample_batch = [] \<and> e = IndexError) \<or>
         (\<exists>texts rest. sample_batch = texts # rest \<and> m texts = Inl e)))"
  by (auto simp: lab7_infer_batch_def and_then_def split: option.splits list.splits sum.splits)

lemma lab8_infer_batch_raises:
  "lab8_infer_batch p sample_batch = Inl e \<longleftrightarrow>
     (model p = None \<and> e = ValueError) \<or>
     (\<exists>m. model p = Some m \<and>
        ((sample_batch = [] \<and> e = IndexError) \<or>
         (\<exists>texts rest. sample_batch = texts # rest \<and> m texts = Inl e)))"
  by (auto simp: lab8_infer_batch_def and_then_def split: option.splits list.splits sum.splits)

lemma lab7_infer_sample_raises:
  "lab7_infer_sample p sample = Inl e \<longleftrightarrow>
     model p \<noteq> None \<and>
     (lab7_infer_batch p [sample] = Inl e \<or>
      (lab7_infer_batch p [sample] = Inr [] \<and> e = IndexError))"
  by (auto simp: lab7_infer_sample_def first_item_def and_then_def
      split: list.splits sum.splits)

lemma lab8_infer_sample_raises:
  "lab8_infer_sample p sample = Inl e \<longleftrightarrow>
     model p \<noteq> None \<and>
     (lab8_infer_batch p [sample] = Inl e \<or>
      (lab8_infer_batch p [sample] = Inr [] \<and> e = IndexError))"
  by (auto simp: lab8_infer_sample_def first_item_def and_then_def
      split: list.splits sum.splits)

lemma lab7_loop_raises:
  "lab7_loop p = Inl e \<longleftrightarrow>
     (\<exists>before indices rest.
        batches (nat (batch_size p)) [0..<length (rows (dataset p))] = before @ indices # rest \<and>
        (\<forall>b \<in> set before. \<exists>preds.
           and_then (and_then (for_each (lab7_getitem (dataset p)) b) default_collate)
             (lab7_infer_batch p) = Inr preds) \<and>
        (for_each (lab7_getitem (dataset p)) indices = Inl e \<or>
         (\<exists>samples. for_each (lab7_getitem (dataset p)) indices = Inr samples \<and>
            (default_collate samples = Inl e \<or>
             (\<exists>batch. default_collate samples = Inr batch \<and> lab7_infer_batch p batch = Inl e)))))"
proof -
  let ?F = "\<lambda>indices.
    and_then (and_then (for_each (lab7_getitem (dataset p)) indices) default_collate)
      (lab7_infer_batch p)"
  have loop: "lab7_loop p =
      for_each ?F (batches (nat (batch_size p)) [0..<length (rows (dataset p))])"
    by (simp add: DataLoader_def for_each_comp)
  have site: "?F indices = Inl e \<longleftrightarrow>
      for_each (lab7_getitem (dataset p)) indices = Inl e \<or>
      (\<exists>samples. for_each (lab7_getitem (dataset p)) indices = Inr samples \<and>
         (default_collate samples = Inl e \<or>
          (\<exists>batch. default_collate samples = Inr batch \<and> lab7_infer_batch p batch = Inl e)))"
    for indices
    by (auto simp: and_then_def split: sum.splits)
  show ?thesis
    unfolding loop for_each_raises [of ?F] site ..
qed

lemma lab8_loop_raises:
  "lab8_loop p = Inl e \<longleftrightarrow>
     (\<exists>before indices rest.
        batches (nat (batch_size p)) [0..<length (rows (dataset p))] = before @ indices # rest \<and>
        (\<forall>b \<in> set before. \<exists>preds.
           and_then (and_then (for_each (lab8_getitem (dataset p)) b) default_collate)
             (lab8_infer_batch p) = Inr preds) \<and>
        (for_each (lab8_getitem (dataset p)) indices = Inl e \<or>
         (\<exists>samples. for_each (lab8_getitem (dataset p)) indices = Inr samples \<and>
            (default_collate samples = Inl e \<or>
             (\<exists>batch. default_collate samples = Inr batch \<and> lab8_infer_batch p batch = Inl e)))))"
proof -
  let ?F = "\<lambda>indices.
    and_then (and_then (for_each (lab8_getitem (dataset p)) indices) default_collate)
      (lab8_infer_batch p)"
  have loop: "lab8_loop p =
      for_each ?F (batches (nat (batch_size p)) [0..<length (rows (dataset p))])"
    by (simp add: DataLoader_def for_each_comp)
  have site: "?F indices = Inl e \<longleftrightarrow>
      for_each (lab8_getitem (dataset p)) indices = Inl e \<or>
      (\<exists>samples. for_each (lab8_getitem (dataset p)) indices = Inr samples \<and>
         (default_collate samples = Inl e \<or>
          (\<exists>batch. default_collate samples = Inr batch \<and> lab8_infer_batch p batch = Inl e)))"
    for indices
    by (auto simp: and_then_def split: sum.splits)
  show ?thesis
    unfolding loop for_each_raises [of ?F] site ..
qed

lemma lab7_infer_dataset_raises:
  "lab7_infer_dataset p = Inl e \<longleftrightarrow>
     (batch_size p \<le> 0 \<and> e = ValueError) \<or>
     (0 < batch_size p \<and>
      (lab7_loop p = Inl e \<or>
       (\<exists>per_batch. lab7_loop p = Inr per_batch \<and>
          (getitem (dataset p) (Member TARGET) = Inl e \<or>
           (\<exists>target. getitem (dataset p) (Member TARGET) = Inr target \<and>
              DataFrame_of (Name (ColumnNames_value TARGET)) (index (dataset p)) target
                (Name (ColumnNames_value PREDICTION)) (map Str (concat per_batch)) = Inl e)))))"
  by (auto simp: lab7_infer_dataset_def and_then_raises)

lemma lab8_infer_dataset_raises:
  "lab8_infer_dataset p = Inl e \<longleftrightarrow>
     (batch_size p \<le> 0 \<and> e = ValueError) \<or>
     (0 < batch_size p \<and>
      (lab8_loop p = Inl e \<or>
       (\<exists>per_batch. lab8_loop p = Inr per_batch \<and>
          (getitem (dataset p) (Member TARGET) = Inl e \<or>
           (\<exists>target. getitem (dataset p) (Member TARGET) = Inr target \<and>
              DataFrame_of (Name (ColumnNames_value TARGET)) (index (dataset p)) target
                (Name (ColumnNames_value PREDICTION)) (map Str (concat per_batch)) = Inl e)))))"
  by (auto simp: lab8_infer_dataset_def and_then_raises)

lemma DataFrame_of_raises:
  "DataFrame_of a series_index series b vs = Inl e \<longleftrightarrow>
     length vs \<noteq> length series_index \<and> e = ValueError"
  by (auto simp: DataFrame_of_def)

lemma lab7_run_raises:
  "lab7_run read_csv load ev = Inl e \<longleftrightarrow>
     read_csv (data_path ev) = Inl e \<or>
     (\<exists>t. read_csv (data_path ev) = Inr t \<and>
        lab7_run_loop load t (metrics ev) Map.empty = Inl e)"
  unfolding lab7_run_def and_then_raises ..

lemma lab8_run_raises:
  "lab8_run read_csv load ev = Inl e \<longleftrightarrow>
     read_csv (data_path ev) = Inl e \<or>
     (\<exists>t. read_csv (data_path ev) = Inr t \<and>
        lab8_run_loop load t (metrics ev) Map.empty = Inl e)"
  unfolding lab8_run_def and_then_raises ..

lemma lab7_run_loop_raises:
  "lab7_run_loop load t ms results = Inl e \<longleftrightarrow>
     (\<exists>before metric rest res.
        ms = before @ metric # rest \<and> lab7_run_loop load t before results = Inr res \<and>
        (load metric = Inl e \<or>
         (\<exists>compute. load metric = Inr compute \<and>
            (getitem t (Name (ColumnNames_value TARGET)) = Inl e \<or>
             (\<exists>predictions. getitem t (Name (ColumnNames_value TARGET)) = Inr predictions \<and>
                (getitem t (Name (ColumnNames_value PREDICTION)) = Inl e \<or>
                 (\<exists>references.
                    getitem t (Name (ColumnNames_value PREDICTION)) = Inr references \<and>
                    compute predictions references = Inl e)))))))"
proof
  assume "\<exists>before metric rest res.
        ms = before @ metric # rest \<and> lab7_run_loop load t before results = Inr res \<and>
        (load metric = Inl e \<or>
         (\<exists>compute. load metric = Inr compute \<and>
            (getitem t (Name (ColumnNames_value TARGET)) = Inl e \<or>
             (\<exists>predictions. getitem t (Name (ColumnNames_value TARGET)) = Inr predictions \<and>
                (getitem t (Name (ColumnNames_value PREDICTION)) = Inl e \<or>
                 (\<exists>references.
                    getitem t (Name (ColumnNames_value PREDICTION)) = Inr references \<and>
                    compute predictions references = Inl e))))))"
  then obtain before metric rest res where ms: "ms = before @ metric # rest"
    and ok: "lab7_run_loop load t before results = Inr res"
    and site: "(load metric = Inl e \<or>
         (\<exists>compute. load metric = Inr compute \<and>
            (getitem t (Name (ColumnNames_value TARGET)) = Inl e \<or>
             (\<exists>predictions. getitem t (Name (ColumnNames_value TARGET)) = Inr predictions \<and>
                (getitem t (Name (ColumnNames_value PREDICTION)) = Inl e \<or>
                 (\<exists>references.
                    getitem t (Name (ColumnNames_value PREDICTION)) = Inr references \<and>
                    compute predictions references = Inl e))))))"
    by blast
  from site have "lab7_run_loop load t (metric # rest) res = Inl e"
    by (auto simp: and_then_def)
  with ms ok show "lab7_run_loop load t ms results = Inl e"
    by (simp add: lab7_run_loop_append and_then_def)
next
  assume "lab7_run_loop load t ms results = Inl e"
  then show "\<exists>before metric rest res.
        ms = before @ metric # rest \<and> lab7_run_loop load t before results = Inr res \<and>
        (load metric = Inl e \<or>
         (\<exists>compute. load metric = Inr compute \<and>
            (getitem t (Name (ColumnNames_value TARGET)) = Inl e \<or>
             (\<exists>predictions. getitem t (Name (ColumnNames_value TARGET)) = Inr predictions \<and>
                (getitem t (Name (ColumnNames_value PREDICTION)) = Inl e \<or>
                 (\<exists>references.
                    getitem t (Name (ColumnNames_value PREDICTION)) = Inr references \<and>
                    compute predictions references = Inl e))))))"
  proof (induction ms arbitrary: results)
    case Nil
    then show ?case by simp
  next
    case (Cons m ms)
    from Cons.prems have "(load m = Inl e \<or>
         (\<exists>compute. load m = Inr compute \<and>
            (getitem t (Name (ColumnNames_value TARGET)) = Inl e \<or>
             (\<exists>predictions. getitem t (Name (ColumnNames_value TARGET)) = Inr predictions \<and>
                (getitem t (Name (ColumnNames_value PREDICTION)) = Inl e \<or>
                 (\<exists>references.
                    getitem t (Name (ColumnNames_value PREDICTION)) = Inr references \<and>
                    compute predictions references = Inl e)))))) \<or>
        (\<exists>results'. (\<forall>xs. lab7_run_loop load t (m # xs) results =
              lab7_run_loop load t xs results') \<and>
           lab7_run_loop load t ms results' = Inl e)"
      by (auto simp: and_then_def split: sum.splits split del: if_split)
    then show ?case
    proof
      assume "(load m = Inl e \<or>
         (\<exists>compute. load m = Inr compute \<and>
            (getitem t (Name (ColumnNames_value TARGET)) = Inl e \<or>
             (\<exists>predictions. getitem t (Name (ColumnNames_value TARGET)) = Inr predictions \<and>
                (getitem t (Name (ColumnNames_value PREDICTION)) = Inl e \<or>
                 (\<exists>references.
                    getitem t (Name (ColumnNames_value PREDICTION)) = Inr references \<and>
                    compute predictions references = Inl e))))))"
      then have "m # ms = [] @ m # ms \<and> lab7_run_loop load t [] results = Inr results \<and>
          (load m = Inl e \<or>
         (\<exists>compute. load m = Inr compute \<and>
            (getitem t (Name (ColumnNames_value TARGET)) = Inl e \<or>
             (\<exists>predictions. getitem t (Name (ColumnNames_value TARGET)) = Inr predictions \<and>
                (getitem t (Name (ColumnNames_value PREDICTION)) = Inl e \<or>
                 (\<exists>references.
                    getitem t (Name (ColumnNames_value PREDICTION)) = Inr references \<and>
                    compute predictions references = Inl e))))))"
        by simp
      then show ?thesis by blast
    next
      assume "\<exists>results'. (\<forall>xs. lab7_run_loop load t (m # xs) results =
              lab7_run_loop load t xs results') \<and>
           lab7_run_loop load t ms results' = Inl e"
      then obtain results' where step: "\<And>xs. lab7_run_loop load t (m # xs) results =
              lab7_run_loop load t xs results'"
        and tail: "lab7_run_loop load t ms results' = Inl e"
        by blast
      from Cons.IH [OF tail] obtain before metric rest res
        where ms: "ms = before @ metric # rest"
          and ok: "lab7_run_loop load t before results' = Inr res"
          and site: "(load metric = Inl e \<or>
         (\<exists>compute. load metric = Inr compute \<and>
            (getitem t (Name (ColumnNames_value TARGET)) = Inl e \<or>
             (\<exists>predictions. getitem t (Name (ColumnNames_value TARGET)) = Inr predictions \<and>
                (getitem t (Name (ColumnNames_value PREDICTION)) = Inl e \<or>
                 (\<exists>references.
                    getitem t (Name (ColumnNames_value PREDICTION)) = Inr references \<and>
                    compute predictions references = Inl e))))))"
        by blast
      have "lab7_run_loop load t (m # before) results = Inr res"
        using step [of before] ok by simp
      with ms site have "m # ms = (m # before) @ metric # rest \<and>
          lab7_run_loop load t (m # before) results = Inr res \<and>
          (load metric = Inl e \<or>
         (\<exists>compute. load metric = Inr compute \<and>
            (getitem t (Name (ColumnNames_value TARGET)) = Inl e \<or>
             (\<exists>predictions. getitem t (Name (ColumnNames_value TARGET)) = Inr predictions \<and>
                (getitem t (Name (ColumnNames_value PREDICTION)) = Inl e \<or>
                 (\<exists>references.
                    getitem t (Name (ColumnNames_value PREDICTION)) = Inr references \<and>
                    compute predictions references = Inl e))))))"
        by simp
      then show ?thesis by blast
    qed
  qed
qed

lemma lab8_run_loop_raises:
  "lab8_run_loop load t ms results = Inl e \<longleftrightarrow>
     (\<exists>before metric rest res.
        ms = before @ metric # rest \<and> lab8_run_loop load t before results = Inr res \<and>
        (load metric = Inl e \<or>
         (\<exists>compute. load metric = Inr compute \<and>
            (getitem t (Name (ColumnNames_value PREDICTION)) = Inl e \<or>
             (\<exists>predictions. getitem t (Name (ColumnNames_value PREDICTION)) = Inr predictions \<and>
                (getitem t (Name (ColumnNames_value TARGET)) = Inl e \<or>
                 (\<exists>references.
                    getitem t (Name (ColumnNames_value TARGET)) = Inr references \<and>
                    (compute predictions references = Inl e \<or>
                     (\<exists>result. compute predictions references = Inr result \<and>
                        dict_get result
                          (if metric = Metrics_ROUGE_value then ''rougeL'' else metric) =
                          Inl e)))))))))"
proof
  assume "\<exists>before metric rest res.
        ms = before @ metric # rest \<and> lab8_run_loop load t before results = Inr res \<and>
        (load metric = Inl e \<or>
         (\<exists>compute. load metric = Inr compute \<and>
            (getitem t (Name (ColumnNames_value PREDICTION)) = Inl e \<or>
             (\<exists>predictions. getitem t (Name (ColumnNames_value PREDICTION)) = Inr predictions \<and>
                (getitem t (Name (ColumnNames_value TARGET)) = Inl e \<or>
                 (\<exists>references.
                    getitem t (Name (ColumnNames_value TARGET)) = Inr references \<and>
                    (compute predictions references = Inl e \<or>
                     (\<exists>result. compute predictions references = Inr result \<and>
                        dict_get result
                          (if metric = Metrics_ROUGE_value then ''rougeL'' else metric) =
                          Inl e))))))))"
  then obtain before metric rest res where ms: "ms = before @ metric # rest"
    and ok: "lab8_run_loop load t before results = Inr res"
    and site: "(load metric = Inl e \<or>
         (\<exists>compute. load metric = Inr compute \<and>
            (getitem t (Name (ColumnNames_value PREDICTION)) = Inl e \<or>
             (\<exists>predictions. getitem t (Name (ColumnNames_value PREDICTION)) = Inr predictions \<and>
                (getitem t (Name (ColumnNames_value TARGET)) = Inl e \<or>
                 (\<exists>references.
                    getitem t (Name (ColumnNames_value TARGET)) = Inr references \<and>
                    (compute predictions references = Inl e \<or>
                     (\<exists>result. compute predictions references = Inr result \<and>
                        dict_get result
                          (if metric = Metrics_ROUGE_value then ''rougeL'' else metric) =
                          Inl e))))))))"
    by blast
  from site have "lab8_run_loop load t (metric # rest) res = Inl e"
    by (auto simp: and_then_def)
  with ms ok show "lab8_run_loop load t ms results = Inl e"
    by (simp add: lab8_run_loop_append and_then_def)
next
  assume "lab8_run_loop load t ms results = Inl e"
  then show "\<exists>before metric rest res.
        ms = before @ metric # rest \<and> lab8_run_loop load t before results = Inr res \<and>
        (load metric = Inl e \<or>
         (\<exists>compute. load metric = Inr compute \<and>
            (getitem t (Name (ColumnNames_value PREDICTION)) = Inl e \<or>
             (\<exists>predictions. getitem t (Name (ColumnNames_value PREDICTION)) = Inr predictions \<and>
                (getitem t (Name (ColumnNames_value TARGET)) = Inl e \<or>
                 (\<exists>references.
                    getitem t (Name (ColumnNames_value TARGET)) = Inr references \<and>
                    (compute predictions references = Inl e \<or>
                     (\<exists>result. compute predictions references = Inr result \<and>
                        dict_get result
                          (if metric = Metrics_ROUGE_value then ''rougeL'' else metric) =
                          Inl e))))))))"
  proof (induction ms arbitrary: results)
    case Nil
    then show ?case by simp
  next
    case (Cons m ms)
    from Cons.prems have "(load m = Inl e \<or>
         (\<exists>compute. load m = Inr compute \<and>
            (getitem t (Name (ColumnNames_value PREDICTION)) = Inl e \<or>
             (\<exists>predictions. getitem t (Name (ColumnNames_value PREDICTION)) = Inr predictions \<and>
                (getitem t (Name (ColumnNames_value TARGET)) = Inl e \<or>
                 (\<exists>references.
                    getitem t (Name (ColumnNames_value TARGET)) = Inr references \<and>
                    (compute predictions references = Inl e \<or>
                     (\<exists>result. compute predictions references = Inr result \<and>
                        dict_get result
                          (if m = Metrics_ROUGE_value then ''rougeL'' else m) =
                          Inl e)))))))) \<or>
        (\<exists>results'. (\<forall>xs. lab8_run_loop load t (m # xs) results =
              lab8_run_loop load t xs results') \<and>
           lab8_run_loop load t ms results' = Inl e)"
      by (auto simp: and_then_def split: sum.splits split del: if_split)
    then show ?case
    proof
      assume "(load m = Inl e \<or>
         (\<exists>compute. load m = Inr compute \<and>
            (getitem t (Name (ColumnNames_value PREDICTION)) = Inl e \<or>
             (\<exists>predictions. getitem t (Name (ColumnNames_value PREDICTION)) = Inr predictions \<and>
                (getitem t (Name (ColumnNames_value TARGET)) = Inl e \<or>
                 (\<exists>references.
                    getitem t (Name (ColumnNames_value TARGET)) = Inr references \<and>
                    (compute predictions references = Inl e \<or>
                     (\<exists>result. compute predictions references = Inr result \<and>
                        dict_get result
                          (if m = Metrics_ROUGE_value then ''rougeL'' else m) =
                          Inl e))))))))"
      then have "m # ms = [] @ m # ms \<and> lab8_run_loop load t [] results = Inr results \<and>
          (load m = Inl e \<or>
         (\<exists>compute. load m = Inr compute \<and>
            (getitem t (Name (ColumnNames_value PREDICTION)) = Inl e \<or>
             (\<exists>predictions. getitem t (Name (ColumnNames_value PREDICTION)) = Inr predictions \<and>
                (getitem t (Name (ColumnNames_value TARGET)) = Inl e \<or>
                 (\<exists>references.
                    getitem t (Name (ColumnNames_value TARGET)) = Inr references \<and>
                    (compute predictions references = Inl e \<or>
                     (\<exists>result. compute predictions references = Inr result \<and>
                        dict_get result
                          (if m = Metrics_ROUGE_value then ''rougeL'' else m) =
                          Inl e))))))))"
        by simp
      then show ?thesis by blast
    next
      assume "\<exists>results'. (\<forall>xs. lab8_run_loop load t (m # xs) results =
              lab8_run_loop load t xs results') \<and>
           lab8_run_loop load t ms results' = Inl e"
      then obtain results' where step: "\<And>xs. lab8_run_loop load t (m # xs) results =
              lab8_run_loop load t xs results'"
        and tail: "lab8_run_loop load t ms results' = Inl e"
        by blast
      from Cons.IH [OF tail] obtain before metric rest res
        where ms: "ms = before @ metric # rest"
          and ok: "lab8_run_loop load t before results' = Inr res"
          and site: "(load metric = Inl e \<or>
         (\<exists>compute. load metric = Inr compute \<and>
            (getitem t (Name (ColumnNames_value PREDICTION)) = Inl e \<or>
             (\<exists>predictions. getitem t (Name (ColumnNames_value PREDICTION)) = Inr predictions \<and>
                (getitem t (Name (ColumnNames_value TARGET)) = Inl e \<or>
                 (\<exists>references.
                    getitem t (Name (ColumnNames_value TARGET)) = Inr references \<and>
                    (compute predictions references = Inl e \<or>
                     (\<exists>result. compute predictions references = Inr result \<and>
                        dict_get result
                          (if metric = Metrics_ROUGE_value then ''rougeL'' else metric) =
                          Inl e))))))))"
        by blast
      have "lab8_run_loop load t (m # before) results = Inr res"
        using step [of before] ok by simp
      with ms site have "m # ms = (m # before) @ metric # rest \<and>
          lab8_run_loop load t (m # before) results = Inr res \<and>
          (load metric = Inl e \<or>
         (\<exists>compute. load metric = Inr compute \<and>
            (getitem t (Name (ColumnNames_value PREDICTION)) = Inl e \<or>
             (\<exists>predictions. getitem t (Name (ColumnNames_value PREDICTION)) = Inr predictions \<and>
                (getitem t (Name (ColumnNames_value TARGET)) = Inl e \<or>
                 (\<exists>references.
                    getitem t (Name (ColumnNames_value TARGET)) = Inr references \<and>
                    (compute predictions references = Inl e \<or>
                     (\<exists>result. compute predictions references = Inr result \<and>
                        dict_get result
                          (if metric = Metrics_ROUGE_value then ''rougeL'' else metric) =
                          Inl e))))))))"
        by simp
      then show ?thesis by blast
    qed
  qed
qed

text \<open>
  C7. No stage catches an exception. Each operation of the four stages raises \<open>e\<close> exactly
  when one of the calls it makes raises \<open>e\<close>, the calls before it having returned, or when
  it raises \<open>e\<close> itself (the type check of \<^verbatim>\<open>obtain\<close>, the null-model guard, an index out
  of range); so every exception raised inside a stage is the outcome of the stage,
  unchanged, nothing is retried and no partial result is returned. The operations are the
  sequencing and the loop of the model, \<^verbatim>\<open>obtain\<close>, both \<^verbatim>\<open>transform\<close> and both \<^verbatim>\<open>analyze\<close>,
  \<^verbatim>\<open>__getitem__\<close>, \<^verbatim>\<open>_infer_batch\<close>, \<^verbatim>\<open>infer_sample\<close>, the loop over the batches and
  \<^verbatim>\<open>infer_dataset\<close>, and \<^verbatim>\<open>run\<close> with its loop over the metrics.
\<close>

theorem errors_propagate:
  "(and_then r k = Inl e \<longleftrightarrow> r = Inl e \<or> (\<exists>v. r = Inr v \<and> k v = Inl e)) \<and>
   (for_each f xs = Inl e \<longleftrightarrow>
         (\<exists>before x rest. xs = before @ x # rest \<and> (\<forall>y \<in> set before. \<exists>v. f y = Inr v) \<and>
            f x = Inl e)) \<and>
   (fst (importer_obtain load_to_pandas imp) = Inl e \<longleftrightarrow>
         load_to_pandas (hf_name imp) = Inl e \<or>
         (load_to_pandas (hf_name imp) = Inr OtherObject \<and> e = TypeError)) \<and>
   (fst (lab7_transform self h) = Inl e \<longleftrightarrow>
         getitem (drop_duplicates (rename lab7_names (h ! raw_data self))) (Member TARGET) = Inl e \<or>
         (\<exists>col. getitem (drop_duplicates (rename lab7_names (h ! raw_data self))) (Member TARGET) =
              Inr col \<and>
            setitem (Member TARGET) (map is_true col)
              (drop_duplicates (rename lab7_names (h ! raw_data self))) = Inl e) \<or>
         (\<exists>col df. getitem (drop_duplicates (rename lab7_names (h ! raw_data self))) (Member TARGET) =
              Inr col \<and>
            setitem (Member TARGET) (map is_true col)
              (drop_duplicates (rename lab7_names (h ! raw_data self))) = Inr df \<and>
            reset_index df = Inl e)) \<and>
   (fst (lab8_transform self h) = Inl e \<longleftrightarrow>
         drop_columns lab8_dropped (h ! raw_data self) = Inl e \<or>
         (\<exists>df. drop_columns lab8_dropped (h ! raw_data self) = Inr df \<and>
            reset_index (rename lab8_names df) = Inl e)) \<and>
   (fst (lab7_analyze self h) = Inl e \<longleftrightarrow>
         getitem (h ! raw_data self) (Name ''neutral'') = Inl e \<or>
         (\<exists>col. getitem (h ! raw_data self) (Name ''neutral'') = Inr col \<and>
            for_each len_ignore_na col = Inl e)) \<and>
   (fst (lab8_analyze self h) = Inl e \<longleftrightarrow>
         getitem (h ! raw_data self) (Name ''article_content'') = Inl e \<or>
         (\<exists>col. getitem (h ! raw_data self) (Name ''article_content'') = Inr col \<and>
            for_each len_ignore_na col = Inl e)) \<and>
   (lab7_getitem df i = Inl e \<longleftrightarrow>
         getitem df (Member SOURCE) = Inl e \<or>
         (\<exists>col. getitem df (Member SOURCE) = Inr col \<and> \<not> i < length col \<and> e = IndexError)) \<and>
   (lab8_getitem df i = Inl e \<longleftrightarrow>
         getitem df (Member SOURCE) = Inl e \<or>
         (\<exists>col. getitem df (Member SOURCE) = Inr col \<and> \<not> i < length col \<and> e = IndexError)) \<and>
   (lab7_infer_batch p sample_batch = Inl e \<longleftrightarrow>
         (model p = None \<and> e = ValueError) \<or>
         (\<exists>m. model p = Some m \<and>
            ((sample_batch = [] \<and> e = IndexError) \<or>
             (\<exists>texts rest. sample_batch = texts # rest \<and> m texts = Inl e)))) \<and>
   (lab8_infer_batch q sample_batch = Inl e \<longleftrightarrow>
         (model q = None \<and> e = ValueError) \<or>
         (\<exists>m. model q = Some m \<and>
            ((sample_batch = [] \<and> e = IndexError) \<or>
             (\<exists>texts rest. sample_batch = texts # rest \<and> m texts = Inl e)))) \<and>
   (lab7_infer_sample p sample = Inl e \<longleftrightarrow>
         model p \<noteq> None \<and>
         (lab7_infer_batch p [sample] = Inl e \<or>
          (lab7_infer_batch p [sample] = Inr [] \<and> e = IndexError))) \<and>
   (lab8_infer_sample q sample = Inl e \<longleftrightarrow>
         model q \<noteq> None \<and>
         (lab8_infer_batch q [sample] = Inl e \<or>
          (lab8_infer_batch q [sample] = Inr [] \<and> e = IndexError))) \<and>
   (lab7_loop p = Inl e \<longleftrightarrow>
         (\<exists>before indices rest.
            batches (nat (batch_size p)) [0..<length (rows (dataset p))] = before @ indices # rest \<and>
            (\<forall>b \<in> set before. \<exists>preds.
               and_then (and_then (for_each (lab7_getitem (dataset p)) b) default_collate)
                 (lab7_infer_batch p) = Inr preds) \<and>
            (for_each (lab7_getitem (dataset p)) indices = Inl e \<or>
             (\<exists>samples. for_each (lab7_getitem (dataset p)) indices = Inr samples \<and>
                (default_collate samples = Inl e \<or>
                 (\<exists>batch. default_collate samples = Inr batch \<and> lab7_infer_batch p batch = Inl e)))))) \<and>
   (lab8_loop q = Inl e \<longleftrightarrow>
         (\<exists>before indices rest.
            batches (nat (batch_size q)) [0..<length (rows (dataset q))] = before @ indices # rest \<and>
            (\<forall>b \<in> set before. \<exists>preds.
               and_then (and_then (for_each (lab8_getitem (dataset q)) b) default_collate)
                 (lab8_infer_batch q) = Inr preds) \<and>
            (for_each (lab8_getitem (dataset q)) indices = Inl e \<or>
             (\<exists>samples. for_each (lab8_getitem (dataset q)) indices = Inr samples \<and>
                (default_collate samples = Inl e \<or>
                 (\<exists>batch. default_collate samples = Inr batch \<and> lab8_infer_batch q batch = Inl e)))))) \<and>
   (lab7_infer_dataset p = Inl e \<longleftrightarrow>
         (batch_size p \<le> 0 \<and> e = ValueError) \<or>
         (0 < batch_size p \<and>
          (lab7_loop p = Inl e \<or>
           (\<exists>per_batch. lab7_loop p = Inr per_batch \<and>
              (getitem (dataset p) (Member TARGET) = Inl e \<or>
               (\<exists>target. getitem (dataset p) (Member TARGET) = Inr target \<and>
                  DataFrame_of (Name (ColumnNames_value TARGET)) (index (dataset p)) target
                    (Name (ColumnNames_value PREDICTION)) (map Str (concat per_batch)) = Inl e)))))) \<and>
   (lab8_infer_dataset q = Inl e \<longleftrightarrow>
         (batch_size q \<le> 0 \<and> e = ValueError) \<or>
         (0 < batch_size q \<and>
          (lab8_loop q = Inl e \<or>
           (\<exists>per_batch. lab8_loop q = Inr per_batch \<and>
              (getitem (dataset q) (Member TARGET) = Inl e \<or>
               (\<exists>target. getitem (dataset q) (Member TARGET) = Inr target \<and>
                  DataFrame_of (Name (ColumnNames_value TARGET)) (index (dataset q)) target
                    (Name (ColumnNames_value PREDICTION)) (map Str (concat per_batch)) = Inl e)))))) \<and>
   (lab7_run read_csv load ev = Inl e \<longleftrightarrow>
         read_csv (data_path ev) = Inl e \<or>
         (\<exists>t. read_csv (data_path ev) = Inr t \<and>
            lab7_run_loop load t (metrics ev) Map.empty = Inl e)) \<and>
   (lab8_run read_csv load ev = Inl e \<longleftrightarrow>
         read_csv (data_path ev) = Inl e \<or>
         (\<exists>t. read_csv (data_path ev) = Inr t \<and>
            lab8_run_loop load t (metrics ev) Map.empty = Inl e)) \<and>
   (lab7_run_loop load t ms results = Inl e \<longleftrightarrow>
         (\<exists>before metric rest res.
            ms = before @ metric # rest \<and> lab7_run_loop load t before results = Inr res \<and>
            (load metric = Inl e \<or>
             (\<exists>compute. load metric = Inr compute \<and>
                (getitem t (Name (ColumnNames_value TARGET)) = Inl e \<or>
                 (\<exists>predictions. getitem t (Name (ColumnNames_value TARGET)) = Inr predictions \<and>
                    (getitem t (Name (ColumnNames_value PREDICTION)) = Inl e \<or>
                     (\<exists>references.
                        getitem t (Name (ColumnNames_value PREDICTION)) = Inr references \<and>
                        compute predictions references = Inl e)))))))) \<and>
   (lab8_run_loop load t ms results = Inl e \<longleftrightarrow>
         (\<exists>before metric rest res.
            ms = before @ metric # rest \<and> lab8_run_loop load t before results = Inr res \<and>
            (load metric = Inl e \<or>
             (\<exists>compute. load metric = Inr compute \<and>
                (getitem t (Name (ColumnNames_value PREDICTION)) = Inl e \<or>
                 (\<exists>predictions. getitem t (Name (ColumnNames_value PREDICTION)) = Inr predictions \<and>
                    (getitem t (Name (ColumnNames_value TARGET)) = Inl e \<or>
                     (\<exists>references.
                        getitem t (Name (ColumnNames_value TARGET)) = Inr references \<and>
                        (compute predictions references = Inl e \<or>
                         (\<exists>result. compute predictions references = Inr result \<and>
                            dict_get result
                              (if metric = Metrics_ROUGE_value then ''rougeL'' else metric) =
                              Inl e))))))))))"
  by (intro conjI)
    (rule and_then_raises,
     rule for_each_raises,
     rule obtain_raises,
     rule lab7_transform_raises,
     rule lab8_transform_raises,
     rule lab7_analyze_raises,
     rule lab8_analyze_raises,
     rule lab7_getitem_raises,
     rule lab8_getitem_raises,
     rule lab7_infer_batch_raises,
     rule lab8_infer_batch_raises,
     rule lab7_infer_sample_raises,
     rule lab8_infer_sample_raises,
     rule lab7_loop_raises,
     rule lab8_loop_raises,
     rule lab7_infer_dataset_raises,
     rule lab8_infer_dataset_raises,
     rule lab7_run_raises,
     rule lab8_run_raises,
     rule lab7_run_loop_raises,
     rule lab8_run_loop_raises)

theorem errors_propagate_witness:
  "for_each len_ignore_na [Str ''x'', Num 1, Bool True] = Inl TypeError \<and>
   fst (importer_obtain (\<lambda>name. Inl (External ''offline'')) fresh_importer) =
     Inl (External ''offline'') \<and>
   fst (lab7_transform fresh_preprocessor [indexed_table]) = Inl ValueError \<and>
   fst (lab8_transform fresh_preprocessor [toxic_table]) = Inl KeyError \<and>
   fst (lab7_analyze fresh_preprocessor [news_table]) = Inl KeyError \<and>
   fst (lab8_analyze fresh_preprocessor [mixed_news_table]) = Inl TypeError \<and>
   lab7_getitem example_dataset 5 = Inl IndexError \<and>
   lab8_getitem toxic_table 0 = Inl KeyError \<and>
   lab7_infer_batch failing_p7 [[Str ''c'']] = Inl (External ''out of memory'') \<and>
   lab8_infer_batch example_p8 [] = Inl IndexError \<and>
   lab7_infer_sample silent_p7 [Str ''a''] = Inl IndexError \<and>
   lab8_infer_sample failing_p8 [Str ''c''] = Inl (External ''out of memory'') \<and>
   lab7_loop failing_p7 = Inl (External ''out of memory'') \<and>
   lab7_loop none_p7 = Inl TypeError \<and>
   lab8_loop unprepared_p8 = Inl KeyError \<and>
   lab7_infer_dataset zero_batch_p7 = Inl ValueError \<and>
   lab7_infer_dataset silent_p7 = Inl ValueError \<and>
   lab7_infer_dataset failing_p7 = Inl (External ''out of memory'') \<and>
   lab8_infer_dataset no_target_p8 = Inl KeyError \<and>
   lab7_run (\<lambda>path. Inl (External ''no such file'')) example_load failing_evaluator =
     Inl (External ''no such file'') \<and>
   lab8_run (\<lambda>path. Inr predictions_csv) spy_load rouge_evaluator = Inl KeyError \<and>
   lab7_run_loop spy_load target_only_csv [''spy''] Map.empty = Inl KeyError \<and>
   lab7_run_loop example_load predictions_csv [''spy'', ''broken''] Map.empty =
     Inl (External ''metric failed'') \<and>
   lab8_run_loop spy_load predictions_csv [''spy'', ''rouge''] Map.empty = Inl KeyError"
proof -
  note c1 = errors_propagate [THEN conjunct1]
  note c2 = errors_propagate [THEN conjunct2, THEN conjunct1]
  note c3 = errors_propagate [THEN conjunct2, THEN conjunct2, THEN conjunct1]
  note c4 = errors_propagate [THEN conjunct2, THEN conjunct2, THEN conjunct2, THEN conjunct1]
  note c5 = errors_propagate [THEN conjunct2, THEN conjunct2, THEN conjunct2, THEN conjunct2, THEN conjunct1]
  note c6 = errors_propagate [THEN conjunct2, THEN conjunct2, THEN conjunct2, THEN conjunct2, THEN conjunct2, THEN conjunct1]
  note c7 = errors_propagate [THEN conjunct2, THEN conjunct2, THEN conjunct2, THEN conjunct2, THEN conjunct2, THEN conjunct2, THEN conjunct1]
  note c8 = errors_propagate [THEN conjunct2, THEN conjunct2, THEN conjunct2, THEN conjunct2, THEN conjunct2, THEN conjunct2, THEN conjunct2, THEN conjunct1]
  note c9 = errors_propagate [THEN conjunct2, THEN conjunct2, THEN conjunct2, THEN conjunct2, THEN conjunct2, THEN conjunct2, THEN conjunct2, THEN conjunct2, THEN conjunct1]
  note c10 = errors_propagate [THEN conjunct2, THEN conjunct2, THEN conjunct2, THEN conjunct2, THEN conjunct2, THEN conjunct2, THEN conjunct2, THEN conjunct2, THEN conjunct2, THEN conjunct1]
  note c11 = errors_propagate [THEN conjunct2, THEN conjunct2, THEN conjunct2, THEN conjunct2, THEN conjunct2, THEN conjunct2, THEN conjunct2, THEN conjunct2, THEN conjunct2, THEN conjunct2, THEN conjunct1]
  note c12 = errors_propagate [THEN conjunct2, THEN conjunct2, THEN conjunct2, THEN conjunct2, THEN conjunct2, THEN conjunct2, THEN conjunct2, THEN conjunct2, THEN conjunct2, THEN conjunct2, THEN conjunct2, THEN conjunct1]
  note c13 = errors_propagate [THEN conjunct2, THEN conjunct2, THEN conjunct2, THEN conjunct2, THEN conjunct2, THEN conjunct2, THEN conjunct2, THEN conjunct2, THEN conjunct2, THEN conjunct2, THEN conjunct2, THEN conjunct2, THEN conjunct1]
  note c14 = errors_propagate [THEN conjunct2, THEN conjunct2, THEN conjunct2, THEN conjunct2, THEN conjunct2, THEN conjunct2, THEN conjunct2, THEN conjunct2, THEN conjunct2, THEN conjunct2, THEN conjunct2, THEN conjunct2, THEN conjunct2, THEN conjunct1]
  note c15 = errors_propagate [THEN conjunct2, THEN conjunct2, THEN conjunct2, THEN conjunct2, THEN conjunct2, THEN conjunct2, THEN conjunct2, THEN conjunct2, THEN conjunct2, THEN conjunct2, THEN conjunct2, THEN conjunct2, THEN conjunct2, THEN conjunct2, THEN conjunct1]
  note c16 = errors_propagate [THEN conjunct2, THEN conjunct2, THEN conjunct2, THEN conjunct2, THEN conjunct2, THEN conjunct2, THEN conjunct2, THEN conjunct2, THEN conjunct2, THEN conjunct2, THEN conjunct2, THEN conjunct2, THEN conjunct2, THEN conjunct2, THEN conjunct2, THEN conjunct1]
  note c17 = errors_propagate [THEN conjunct2, THEN conjunct2, THEN conjunct2, THEN conjunct2, THEN conjunct2, THEN conjunct2, THEN conjunct2, THEN conjunct2, THEN conjunct2, THEN conjunct2, THEN conjunct2, THEN conjunct2, THEN conjunct2, THEN conjunct2, THEN conjunct2, THEN conjunct2, THEN conjunct1]
  note c18 = errors_propagate [THEN conjunct2, THEN conjunct2, THEN conjunct2, THEN conjunct2, THEN conjunct2, THEN conjunct2, THEN conjunct2, THEN conjunct2, THEN conjunct2, THEN conjunct2, THEN conjunct2, THEN conjunct2, THEN conjunct2, THEN conjunct2, THEN conjunct2, THEN conjunct2, THEN conjunct2, THEN conjunct1]
  note c19 = errors_propagate [THEN conjunct2, THEN conjunct2, THEN conjunct2, THEN conjunct2, THEN conjunct2, THEN conjunct2, THEN conjunct2, THEN conjunct2, THEN conjunct2, THEN conjunct2, THEN conjunct2, THEN conjunct2, THEN conjunct2, THEN conjunct2, THEN conjunct2, THEN conjunct2, THEN conjunct2, THEN conjunct2, THEN conjunct1]
  note c20 = errors_propagate [THEN conjunct2, THEN conjunct2, THEN conjunct2, THEN conjunct2, THEN conjunct2, THEN conjunct2, THEN conjunct2, THEN conjunct2, THEN conjunct2, THEN conjunct2, THEN conjunct2, THEN conjunct2, THEN conjunct2, THEN conjunct2, THEN conjunct2, THEN conjunct2, THEN conjunct2, THEN conjunct2, THEN conjunct2, THEN conjunct1]
  note c21 = errors_propagate [THEN conjunct2, THEN conjunct2, THEN conjunct2, THEN conjunct2, THEN conjunct2, THEN conjunct2, THEN conjunct2, THEN conjunct2, THEN conjunct2, THEN conjunct2, THEN conjunct2, THEN conjunct2, THEN conjunct2, THEN conjunct2, THEN conjunct2, THEN conjunct2, THEN conjunct2, THEN conjunct2, THEN conjunct2, THEN conjunct2]
  have w2: "for_each len_ignore_na [Str ''x'', Num 1, Bool True] = Inl TypeError"
    by (rule c2 [THEN iffD2], rule exI [of _ "[Str ''x'']"], rule exI [of _ "Num 1"],
        rule exI [of _ "[Bool True]"]) simp
  have w3: "fst (importer_obtain (\<lambda>name. Inl (External ''offline'')) fresh_importer) =
      Inl (External ''offline'')"
    by (rule c3 [THEN iffD2]) simp
  have w4: "fst (lab7_transform fresh_preprocessor [indexed_table]) = Inl ValueError"
    by (rule c4 [THEN iffD2])
      (simp add: raw_data_fresh indexed_table_def rename_def drop_duplicates_def duplicated_def
        select_def getitem_def setitem_def reset_index_def Let_def)
  have w5: "fst (lab8_transform fresh_preprocessor [toxic_table]) = Inl KeyError"
    by (rule c5 [THEN iffD2]) (simp add: raw_data_fresh toxic_table_def drop_columns_def)
  have w6: "fst (lab7_analyze fresh_preprocessor [news_table]) = Inl KeyError"
    by (rule c6 [THEN iffD2]) (simp add: raw_data_fresh news_table_def getitem_def)
  have w7: "fst (lab8_analyze fresh_preprocessor [mixed_news_table]) = Inl TypeError"
    by (rule c7 [THEN iffD2]) (simp add: raw_data_fresh mixed_news_table_def getitem_def)
  have w8: "lab7_getitem example_dataset 5 = Inl IndexError"
    by (rule c8 [THEN iffD2]) (simp add: source_example)
  have w9: "lab8_getitem toxic_table 0 = Inl KeyError"
    by (rule c9 [THEN iffD2]) (simp add: toxic_table_def getitem_def)
  have w10: "lab7_infer_batch failing_p7 [[Str ''c'']] = Inl (External ''out of memory'')"
    by (rule c10 [THEN iffD2]) (simp add: failing_p7_def failing_classifier_def)
  have w11: "lab8_infer_batch example_p8 [] = Inl IndexError"
    by (rule c11 [THEN iffD2]) (simp add: example_p8_def)
  have s12: "lab7_infer_batch silent_p7 [[Str ''a'']] = Inr []"
    by (simp add: lab7_infer_batch_def silent_p7_def silent_classifier_def and_then_def)
  have w12: "lab7_infer_sample silent_p7 [Str ''a''] = Inl IndexError"
    by (rule c12 [THEN iffD2]) (simp add: s12, simp add: silent_p7_def)
  have s13: "lab8_infer_batch failing_p8 [[Str ''c'']] = Inl (External ''out of memory'')"
    by (rule c11 [THEN iffD2]) (simp add: failing_p8_def failing_summarizer_def)
  have w13: "lab8_infer_sample failing_p8 [Str ''c''] = Inl (External ''out of memory'')"
    by (rule c13 [THEN iffD2]) (simp add: s13, simp add: failing_p8_def)
  have ev: "dataset failing_p7 = example_dataset" "batch_size failing_p7 = 2"
    "model failing_p7 = Some failing_classifier"
    "dataset none_p7 = none_dataset" "batch_size none_p7 = 2" "model none_p7 = Some classifier"
    "dataset unprepared_p8 = toxic_table" "batch_size unprepared_p8 = 2"
    "dataset silent_p7 = example_dataset" "batch_size silent_p7 = 2"
    "model silent_p7 = Some silent_classifier"
    "dataset no_target_p8 = no_target_dataset" "batch_size no_target_p8 = 2"
    "model no_target_p8 = Some summarizer" "batch_size zero_batch_p7 = 0"
    by (simp_all add: failing_p7_def none_p7_def unprepared_p8_def silent_p7_def
        no_target_p8_def zero_batch_p7_def)
  have w14: "lab7_loop failing_p7 = Inl (External ''out of memory'')"
    by (rule c14 [THEN iffD2], rule exI [of _ "[[0, 1]]"], rule exI [of _ "[2]"],
        rule exI [of _ "[]"])
      (simp add: ev batches_Cons lab7_getitem_def getitem_def example_dataset_def
        default_collate_def lab7_infer_batch_def failing_classifier_def classifier_def
        and_then_def)
  have w15: "lab7_loop none_p7 = Inl TypeError"
    by (rule c14 [THEN iffD2], rule exI [of _ "[]"], rule exI [of _ "[0, 1]"],
        rule exI [of _ "[]"])
      (simp add: ev batches_Cons lab7_getitem_def getitem_def none_dataset_def
        default_collate_def and_then_def)
  have w16: "lab8_loop unprepared_p8 = Inl KeyError"
    by (rule c15 [THEN iffD2], rule exI [of _ "[]"], rule exI [of _ "[0, 1]"],
        rule exI [of _ "[[2]]"])
      (simp add: ev batches_Cons lab8_getitem_def getitem_def toxic_table_def and_then_def)
  have w17: "lab7_infer_dataset zero_batch_p7 = Inl ValueError"
    by (rule c16 [THEN iffD2]) (simp add: ev)
  have s18: "lab7_loop silent_p7 = Inr [[], []]"
    by (simp add: ev DataLoader_def batches_Cons lab7_getitem_def getitem_def
        example_dataset_def default_collate_def lab7_infer_batch_def silent_classifier_def
        and_then_def)
  have idx: "index example_dataset = [0, 1, 2]"
    by (simp add: example_dataset_def)
  have w18: "lab7_infer_dataset silent_p7 = Inl ValueError"
    by (rule c16 [THEN iffD2], rule disjI2, rule conjI, simp add: ev, rule disjI2,
        rule exI [of _ "[[], []]"], rule conjI, rule s18)
      (simp add: ev target_example DataFrame_of_def idx)
  have w19: "lab7_infer_dataset failing_p7 = Inl (External ''out of memory'')"
    by (rule c16 [THEN iffD2], rule disjI2, rule conjI, simp add: ev, rule disjI1, rule w14)
  have s20: "lab8_loop no_target_p8 = Inr [[''a'']]"
    by (simp add: ev DataLoader_def batches_Cons lab8_getitem_def getitem_def
        no_target_dataset_def default_collate_def lab8_infer_batch_def summarizer_def
        and_then_def)
  have w20: "lab8_infer_dataset no_target_p8 = Inl KeyError"
    by (rule c17 [THEN iffD2], rule disjI2, rule conjI, simp add: ev, rule disjI2,
        rule exI [of _ "[[''a'']]"], rule conjI, rule s20)
      (simp add: ev getitem_def no_target_dataset_def)
  have w21: "lab7_run (\<lambda>path. Inl (External ''no such file'')) example_load failing_evaluator =
      Inl (External ''no such file'')"
    by (rule c18 [THEN iffD2]) simp
  have cols: "getitem predictions_csv (Name ''target'') = Inr [Num 1, Num 0]"
    "getitem predictions_csv (Name ''prediction'') = Inr [Num 0, Num 0]"
    "getitem target_only_csv (Name ''target'') = Inr [Num 1]"
    "getitem target_only_csv (Name ''prediction'') = Inl KeyError"
    by (simp_all add: getitem_def predictions_csv_def target_only_csv_def)
  have w23: "lab7_run_loop spy_load target_only_csv [''spy''] Map.empty = Inl KeyError"
    by (rule c20 [THEN iffD2], rule exI [of _ "[]"], rule exI [of _ "''spy''"],
        rule exI [of _ "[]"], rule exI [of _ Map.empty])
      (simp add: spy_load_def cols)
  have w24: "lab7_run_loop example_load predictions_csv [''spy'', ''broken''] Map.empty =
      Inl (External ''metric failed'')"
    by (rule c20 [THEN iffD2], rule exI [of _ "[''spy'']"], rule exI [of _ "''broken''"],
        rule exI [of _ "[]"],
        rule exI [of _ "[''spy'' \<mapsto> ([Num 1, Num 0], [Num 0, Num 0])]"])
      (simp add: example_load_def spy_metric_def broken_metric_def cols and_then_def)
  have w25: "lab8_run_loop spy_load predictions_csv [''spy'', ''rouge''] Map.empty =
      Inl KeyError"
    by (rule c21 [THEN iffD2], rule exI [of _ "[''spy'']"], rule exI [of _ "''rouge''"],
        rule exI [of _ "[]"],
        rule exI [of _ "[''spy'' \<mapsto> ([Num 0, Num 0], [Num 1, Num 0])]"])
      (simp add: spy_load_def spy_metric_def cols and_then_def dict_get_def
        Metrics_ROUGE_value_def)
  have ms: "metrics rouge_evaluator = [''spy'', ''rouge'']"
    by (simp add: rouge_evaluator_def)
  have w22: "lab8_run (\<lambda>path. Inr predictions_csv) spy_load rouge_evaluator = Inl KeyError"
    by (rule c19 [THEN iffD2], rule disjI2, rule exI [of _ predictions_csv], rule conjI,
        simp, simp only: ms w25)
  show ?thesis
    by (intro conjI)
      (rule w2, rule w3, rule w4, rule w5, rule w6, rule w7, rule w8, rule w9, rule w10,
       rule w11, rule w12, rule w13, rule w14, rule w15, rule w16, rule w17, rule w18,
       rule w19, rule w20, rule w21, rule w22, rule w23, rule w24, rule w25)
qed

end
